theory Spec2Isabelle
  imports Complex_Main "HOL-Library.Word" "HOL-Library.Sublist"
begin

unbundle bit_operations_syntax

section \<open>Python values, exceptions and strings\<close>

text \<open>
  The monitor is one Python file, \<^verbatim>\<open>voron_monitor.py\<close>. Its probes call external
  programs and the operating system; in this development every such call is an input:
  the value it returned, or the exception it raised. A Python \<^verbatim>\<open>str\<close> is a
  \<open>string\<close> whose characters are read as the code points 0 to 255. A Python
  \<^verbatim>\<open>float\<close> is an exact rational or one of the three special values; the float parser
  \<^verbatim>\<open>float(s)\<close> is a parameter of the functions that call it.
\<close>

datatype exn =
    IndexError
  | ValueError
  | EnvError string

text \<open>\<^verbatim>\<open>str(e)\<close>. Only the message of an exception raised by a collaborator is ever read.\<close>

fun str_exn :: "exn \<Rightarrow> string" where
  "str_exn IndexError = ''list index out of range''"
| "str_exn ValueError = ''invalid literal''"
| "str_exn (EnvError m) = m"

datatype pyfloat = Finite rat | PosInf | NegInf | NaN

text \<open>\<^verbatim>\<open>x > c\<close> for a float \<open>x\<close> and a finite constant \<open>c\<close>.\<close>

fun float_gt :: "pyfloat \<Rightarrow> rat \<Rightarrow> bool" where
  "float_gt (Finite x) c = (c < x)"
| "float_gt PosInf c = True"
| "float_gt NegInf c = False"
| "float_gt NaN c = False"

text \<open>\<^verbatim>\<open>round(x, 2)\<close>: to the nearest hundredth, ties to the even one.\<close>

definition round_half_even :: "rat \<Rightarrow> int" where
  "round_half_even y =
     (let f = \<lfloor>y\<rfloor>; d = y - of_int f
      in if d < 1 / 2 then f
         else if 1 / 2 < d then f + 1
         else if even f then f else f + 1)"

fun round2 :: "pyfloat \<Rightarrow> pyfloat" where
  "round2 (Finite x) = Finite (of_int (round_half_even (x * 100)) / 100)"
| "round2 PosInf = PosInf"
| "round2 NegInf = NegInf"
| "round2 NaN = NaN"

text \<open>
  A value stored in a metrics dict. \<open>VTime t\<close> is the text
  \<^verbatim>\<open>datetime.now().isoformat()\<close> taken when the clock read \<open>t\<close> seconds.
\<close>

datatype pyval =
    VStr string
  | VBool bool
  | VInt int
  | VFloat pyfloat
  | VTime rat

type_synonym pydict = "string \<rightharpoonup> pyval"

text \<open>The result of \<^verbatim>\<open>subprocess.run(..., capture_output=True, text=True)\<close>.\<close>

record completed_process =
  returncode :: int
  stdout :: string

subsection \<open>String methods\<close>

text \<open>\<^verbatim>\<open>str.isspace\<close> on one character, for code points below 256.\<close>

definition py_isspace :: "char \<Rightarrow> bool" where
  "py_isspace c =
     ((of_char c :: nat) \<in> {9, 10, 11, 12, 13, 28, 29, 30, 31, 32, 133, 160})"

definition py_lstrip :: "string \<Rightarrow> string" where
  "py_lstrip s = dropWhile py_isspace s"

definition py_rstrip :: "string \<Rightarrow> string" where
  "py_rstrip s = rev (dropWhile py_isspace (rev s))"

definition py_strip :: "string \<Rightarrow> string" where
  "py_strip s = py_rstrip (py_lstrip s)"

text \<open>\<^verbatim>\<open>s.split(c)\<close> for a one-character separator: never empty, \<^verbatim>\<open>''.split(c) == ['']\<close>.\<close>

fun py_split :: "char \<Rightarrow> string \<Rightarrow> string list" where
  "py_split c [] = [[]]"
| "py_split c (x # xs) =
     (if x = c then [] # py_split c xs
      else (case py_split c xs of
              [] \<Rightarrow> [[x]]
            | w # ws \<Rightarrow> (x # w) # ws))"

text \<open>\<^verbatim>\<open>xs[i]\<close> for a non-negative index.\<close>

definition py_index :: "'a list \<Rightarrow> nat \<Rightarrow> exn + 'a" where
  "py_index xs i = (if i < length xs then Inr (xs ! i) else Inl IndexError)"

text \<open>\<^verbatim>\<open>s.replace(c, '')\<close> for one character, and \<^verbatim>\<open>s.replace("'C", '')\<close>.\<close>

definition remove_char :: "char \<Rightarrow> string \<Rightarrow> string" where
  "remove_char c s = filter (\<lambda>x. x \<noteq> c) s"

fun remove_degC :: "string \<Rightarrow> string" where
  "remove_degC [] = []"
| "remove_degC [x] = [x]"
| "remove_degC (x # y # s) =
     (if x = CHR 0x27 \<and> y = CHR ''C'' then remove_degC s
      else x # remove_degC (y # s))"

text \<open>\<^verbatim>\<open>sep.join(xs)\<close>.\<close>

fun py_join :: "string \<Rightarrow> string list \<Rightarrow> string" where
  "py_join sep [] = []"
| "py_join sep [x] = x"
| "py_join sep (x # y # xs) = x @ sep @ py_join sep (y # xs)"

subsection \<open>\<^verbatim>\<open>int(s, 16)\<close>\<close>

definition hex_val :: "char \<Rightarrow> nat option" where
  "hex_val c =
     (let n = (of_char c :: nat)
      in if 48 \<le> n \<and> n \<le> 57 then Some (n - 48)
         else if 97 \<le> n \<and> n \<le> 102 then Some (n - 87)
         else if 65 \<le> n \<and> n \<le> 70 then Some (n - 55)
         else None)"

text \<open>
  The digits, with single underscores between them: \<open>pu\<close> says that the previous
  character was an underscore, \<open>acc\<close> is the value read so far.
\<close>

fun scan_hex :: "bool \<Rightarrow> nat \<Rightarrow> string \<Rightarrow> nat option" where
  "scan_hex pu acc [] = (if pu then None else Some acc)"
| "scan_hex pu acc (c # cs) =
     (if c = CHR ''_'' then (if pu then None else scan_hex True acc cs)
      else (case hex_val c of
              None \<Rightarrow> None
            | Some d \<Rightarrow> scan_hex False (16 * acc + d) cs))"

text \<open>After the sign: an optional \<^verbatim>\<open>0x\<close> (which one underscore may follow), then the digits.\<close>

definition hex_body :: "string \<Rightarrow> string" where
  "hex_body s =
     (case s of
        a # b # r \<Rightarrow>
          (if a = CHR ''0'' \<and> (b = CHR ''x'' \<or> b = CHR ''X'')
           then (case r of u # r' \<Rightarrow> (if u = CHR ''_'' then r' else r) | [] \<Rightarrow> r)
           else s)
      | _ \<Rightarrow> s)"

definition hex_magnitude :: "string \<Rightarrow> nat option" where
  "hex_magnitude s =
     (case hex_body s of
        [] \<Rightarrow> None
      | c # cs \<Rightarrow> (if c = CHR ''_'' then None else scan_hex False 0 (c # cs)))"

text \<open>
  The white space that \<^verbatim>\<open>int\<close> skips at both ends. It is not that of
  \<^verbatim>\<open>str.strip\<close>: the separators \<^verbatim>\<open>0x1C\<close> to \<^verbatim>\<open>0x1F\<close> are left in place, and
  \<^verbatim>\<open>int\<close> raises on them.
\<close>

definition int_isspace :: "char \<Rightarrow> bool" where
  "int_isspace c = ((of_char c :: nat) \<in> {9, 10, 11, 12, 13, 32, 133, 160})"

definition int_strip :: "string \<Rightarrow> string" where
  "int_strip s = rev (dropWhile int_isspace (rev (dropWhile int_isspace s)))"

definition py_int16 :: "string \<Rightarrow> exn + int" where
  "py_int16 s =
     (let t = int_strip s;
          neg = (case t of c # _ \<Rightarrow> c = CHR ''-'' | [] \<Rightarrow> False);
          u = (case t of c # r \<Rightarrow> (if c = CHR ''+'' \<or> c = CHR ''-'' then r else t) | [] \<Rightarrow> t)
      in case hex_magnitude u of
           None \<Rightarrow> Inl ValueError
         | Some n \<Rightarrow> Inr (if neg then - int n else int n))"

section \<open>The power and thermal probe\<close>

definition TEMP_WARN_THRESHOLD :: rat where
  "TEMP_WARN_THRESHOLD = 75"

text \<open>
  The three \<^verbatim>\<open>vcgencmd\<close> calls of one \<^verbatim>\<open>PowerMonitor.check\<close>, in the order of the
  source. A call after one that raised is never made and its field is not read.
\<close>

record power_env =
  get_throttled :: "exn + completed_process"
  measure_volts :: "exn + completed_process"
  measure_temp :: "exn + completed_process"

text \<open>The value after the first \<^verbatim>\<open>=\<close>: \<^verbatim>\<open>res.stdout.strip().split('=')[1]\<close>.\<close>

definition value_field :: "completed_process \<Rightarrow> exn + string" where
  "value_field res = py_index (py_split (CHR ''='') (py_strip (stdout res))) 1"

definition throttle_flags :: "int \<Rightarrow> pydict \<Rightarrow> pydict" where
  "throttle_flags val_int data =
     (if val_int \<noteq> 0 then
        (let d0 = data(''throttled_alarm'' \<mapsto> VBool True);
             d1 = (if val_int AND 1 \<noteq> 0 then d0(''ue_now'' \<mapsto> VBool True) else d0);
             d2 = (if val_int AND 2 \<noteq> 0 then d1(''freq_cap_now'' \<mapsto> VBool True) else d1);
             d3 = (if val_int AND 4 \<noteq> 0 then d2(''throt_now'' \<mapsto> VBool True) else d2);
             d4 = (if val_int AND 8 \<noteq> 0 then d3(''soft_temp_now'' \<mapsto> VBool True) else d3)
         in d4)
      else data)"

text \<open>
  Each block returns the dict it has filled, or the dict as it stood when the block
  raised. The blocks run in sequence inside one \<^verbatim>\<open>try\<close>: the first raise ends the
  sequence, and \<^verbatim>\<open>except Exception: pass\<close> keeps the dict filled so far.
\<close>

definition check_throttled :: "power_env \<Rightarrow> pydict \<Rightarrow> pydict + pydict" where
  "check_throttled env data =
     (case get_throttled env of
        Inl e \<Rightarrow> Inl data
      | Inr res \<Rightarrow>
          (if returncode res = 0 then
             (case value_field res of
                Inl e \<Rightarrow> Inl data
              | Inr val_str \<Rightarrow>
                  (case py_int16 val_str of
                     Inl e \<Rightarrow> Inl data
                   | Inr val_int \<Rightarrow>
                       Inr (throttle_flags val_int (data(''throttled_hex'' \<mapsto> VStr val_str)))))
           else Inr data))"

definition check_voltage ::
  "(string \<Rightarrow> pyfloat option) \<Rightarrow> power_env \<Rightarrow> pydict \<Rightarrow> pydict + pydict" where
  "check_voltage py_float env data =
     (case measure_volts env of
        Inl e \<Rightarrow> Inl data
      | Inr res \<Rightarrow>
          (if returncode res = 0 then
             (case value_field res of
                Inl e \<Rightarrow> Inl data
              | Inr s \<Rightarrow>
                  (case py_float (remove_char (CHR ''V'') s) of
                     None \<Rightarrow> Inl data
                   | Some v \<Rightarrow> Inr (data(''core_voltage'' \<mapsto> VFloat v))))
           else Inr data))"

definition check_temp ::
  "(string \<Rightarrow> pyfloat option) \<Rightarrow> power_env \<Rightarrow> pydict \<Rightarrow> pydict + pydict" where
  "check_temp py_float env data =
     (case measure_temp env of
        Inl e \<Rightarrow> Inl data
      | Inr res \<Rightarrow>
          (if returncode res = 0 then
             (case value_field res of
                Inl e \<Rightarrow> Inl data
              | Inr s \<Rightarrow>
                  (case py_float (remove_degC s) of
                     None \<Rightarrow> Inl data
                   | Some temp_val \<Rightarrow>
                       (let d = data(''cpu_temp'' \<mapsto> VFloat temp_val)
                        in Inr (if float_gt temp_val TEMP_WARN_THRESHOLD
                                then d(''temp_warning'' \<mapsto> VBool True) else d))))
           else Inr data))"

text \<open>
  \<^verbatim>\<open>PowerMonitor.check\<close>. \<open>Inl\<close> would be an exception leaving the method; the
  method has no such path, and the result type keeps that visible.
\<close>

definition PowerMonitor_check ::
  "(string \<Rightarrow> pyfloat option) \<Rightarrow> power_env \<Rightarrow> exn + pydict option" where
  "PowerMonitor_check py_float env =
     (case check_throttled env Map.empty of
        Inl data \<Rightarrow> Inr (Some data)
      | Inr d1 \<Rightarrow>
          (case check_voltage py_float env d1 of
             Inl data \<Rightarrow> Inr (Some data)
           | Inr d2 \<Rightarrow>
               (case check_temp py_float env d2 of
                  Inl data \<Rightarrow> Inr (Some data)
                | Inr d3 \<Rightarrow> Inr (Some d3))))"

text \<open>Whether a block raises does not depend on the dict it is given.\<close>

definition throttled_raises :: "power_env \<Rightarrow> bool" where
  "throttled_raises env = isl (check_throttled env Map.empty)"

definition voltage_raises :: "(string \<Rightarrow> pyfloat option) \<Rightarrow> power_env \<Rightarrow> bool" where
  "voltage_raises py_float env = isl (check_voltage py_float env Map.empty)"

definition temp_raises :: "(string \<Rightarrow> pyfloat option) \<Rightarrow> power_env \<Rightarrow> bool" where
  "temp_raises py_float env = isl (check_temp py_float env Map.empty)"

text \<open>The dict a block leaves behind, whether it raised or not.\<close>

definition block_dict :: "pydict + pydict \<Rightarrow> pydict" where
  "block_dict r = (case r of Inl d \<Rightarrow> d | Inr d \<Rightarrow> d)"

text \<open>The fields that the throttle block can set.\<close>

definition throttle_keys :: "string list" where
  "throttle_keys =
     [''throttled_hex'', ''throttled_alarm'', ''ue_now'', ''freq_cap_now'', ''throt_now'',
      ''soft_temp_now'']"

text \<open>A field of the record a probe returned; absent when the probe returned no record.\<close>

definition result_field :: "exn + pydict option \<Rightarrow> string \<Rightarrow> pyval option" where
  "result_field r k = (case r of Inr (Some d) \<Rightarrow> d k | _ \<Rightarrow> None)"

section \<open>The bus-error probe\<close>

text \<open>Lower case for the letters A to Z, as the \<^verbatim>\<open>re.IGNORECASE\<close> flag folds them.\<close>

definition py_lower :: "char \<Rightarrow> char" where
  "py_lower c =
     (case map_of (zip ''ABCDEFGHIJKLMNOPQRSTUVWXYZ'' ''abcdefghijklmnopqrstuvwxyz'') c of
        None \<Rightarrow> c
      | Some l \<Rightarrow> l)"

definition is_digit :: "char \<Rightarrow> bool" where
  "is_digit c = (48 \<le> (of_char c :: nat) \<and> (of_char c :: nat) \<le> 57)"

text \<open>\<^verbatim>\<open>pattern.search(s)\<close>: the pattern, given as a test on the text at a position,
  is tried at every position of \<open>s\<close>, the end included.\<close>

fun re_search :: "(string \<Rightarrow> bool) \<Rightarrow> string \<Rightarrow> bool" where
  "re_search m [] = m []"
| "re_search m (c # cs) = (m (c # cs) \<or> re_search m cs)"

text \<open>
  \<^verbatim>\<open>ttyACM\d+ disconnect\<close> at the start of a lower-cased text: the digits are
  taken greedily, and no shorter run can be followed by the space.
\<close>

definition match_ttyacm :: "string \<Rightarrow> bool" where
  "match_ttyacm s =
     (prefix ''ttyacm'' s \<and> takeWhile is_digit (drop 6 s) \<noteq> []
      \<and> prefix '' disconnect'' (dropWhile is_digit (drop 6 s)))"

text \<open>The four patterns of \<^verbatim>\<open>USBMonitor.__init__\<close>, in their order; any one suffices.\<close>

definition usb_pattern_found :: "string \<Rightarrow> bool" where
  "usb_pattern_found line =
     (let l = map py_lower line
      in re_search (prefix ''usb disconnect'') l
         \<or> re_search (prefix ''reset high-speed usb device'') l
         \<or> re_search match_ttyacm l
         \<or> re_search (prefix ''xhci host controller not responding'') l)"

record USBMonitor =
  last_seen_lines :: "string list"

text \<open>\<^verbatim>\<open>deque(maxlen=20)\<close> after \<^verbatim>\<open>clear()\<close> and \<^verbatim>\<open>extend(xs)\<close>: the last 20 items.\<close>

definition deque_refill :: "'a list \<Rightarrow> 'a list" where
  "deque_refill xs = drop (length xs - 20) xs"

text \<open>
  The loop over \<^verbatim>\<open>current_lines\<close>: a line is stripped, skipped when empty, skipped
  when the stripped text is an item of the deque, and kept when a pattern is found.
\<close>

definition usb_new_events :: "string list \<Rightarrow> string list \<Rightarrow> string list" where
  "usb_new_events seen current_lines =
     filter (\<lambda>line. line \<noteq> [] \<and> line \<notin> set seen \<and> usb_pattern_found line)
       (map py_strip current_lines)"

definition usb_current_lines :: "completed_process \<Rightarrow> string list" where
  "usb_current_lines result = py_split (CHR 0x0A) (py_strip (stdout result))"

text \<open>
  \<^verbatim>\<open>USBMonitor.check\<close>, given what \<^verbatim>\<open>subprocess.run\<close> did. The exit code is not read.
\<close>

definition USBMonitor_check ::
  "exn + completed_process \<Rightarrow> USBMonitor \<Rightarrow> (exn + pydict option) \<times> USBMonitor" where
  "USBMonitor_check run st =
     (case run of
        Inl e \<Rightarrow> (Inr (Some (Map.empty(''usb_events'' \<mapsto> VStr (''Error: '' @ str_exn e)))), st)
      | Inr result \<Rightarrow>
          (let current_lines = usb_current_lines result;
               new_events = usb_new_events (last_seen_lines st) current_lines;
               st' = st\<lparr>last_seen_lines := deque_refill current_lines\<rparr>
           in if new_events \<noteq> []
              then (Inr (Some (Map.empty(''usb_events'' \<mapsto> VStr (py_join ''; '' new_events)))), st')
              else (Inr None, st')))"

section \<open>The resource-usage probe\<close>

definition CPU_LOAD_WARN_PERCENT :: rat where
  "CPU_LOAD_WARN_PERCENT = 85"

definition MEM_SWAP_WARN_MB :: rat where
  "MEM_SWAP_WARN_MB = 100"

text \<open>\<open>psutil\<close> says whether the import in \<^verbatim>\<open>__init__\<close> succeeded.\<close>

record SystemMonitor =
  psutil :: bool

text \<open>
  The calls of \<^verbatim>\<open>SystemMonitor.check\<close>: \<^verbatim>\<open>psutil.cpu_percent\<close>, the \<^verbatim>\<open>percent\<close> of
  \<^verbatim>\<open>psutil.virtual_memory()\<close>, the \<^verbatim>\<open>used\<close> bytes of \<^verbatim>\<open>psutil.swap_memory()\<close>, and
  \<^verbatim>\<open>os.getloadavg()\<close>.
\<close>

record system_env =
  cpu_percent :: "exn + pyfloat"
  virtual_memory :: "exn + pyfloat"
  swap_memory :: "exn + int"
  getloadavg :: "exn + pyfloat \<times> pyfloat \<times> pyfloat"

text \<open>\<^verbatim>\<open>SystemMonitor.check\<close> has no \<^verbatim>\<open>try\<close>: what a call raises leaves the method.\<close>

definition SystemMonitor_check :: "system_env \<Rightarrow> SystemMonitor \<Rightarrow> exn + pydict option" where
  "SystemMonitor_check env st =
     (if psutil st then
        (case cpu_percent env of
           Inl e \<Rightarrow> Inl e
         | Inr cpu_pct \<Rightarrow>
             (let d0 = Map.empty(''cpu_usage'' \<mapsto> VFloat cpu_pct);
                  d1 = (if float_gt cpu_pct CPU_LOAD_WARN_PERCENT
                        then d0(''cpu_saturation'' \<mapsto> VBool True) else d0)
              in case virtual_memory env of
                   Inl e \<Rightarrow> Inl e
                 | Inr mem_percent \<Rightarrow>
                     (case swap_memory env of
                        Inl e \<Rightarrow> Inl e
                      | Inr swap_used \<Rightarrow>
                          (let swap_used_mb = round2 (Finite (of_int swap_used / (1024 * 1024)));
                               d2 = d1(''ram_used_pct'' \<mapsto> VFloat mem_percent);
                               d3 = d2(''swap_used_mb'' \<mapsto> VFloat swap_used_mb)
                           in Inr (Some (if float_gt swap_used_mb MEM_SWAP_WARN_MB
                                         then d3(''mem_pressure'' \<mapsto> VBool True) else d3))))))
      else
        (case getloadavg env of
           Inl e \<Rightarrow> Inl e
         | Inr (l1, l5, l15) \<Rightarrow>
             Inr (Some (Map.empty(''load_1min'' \<mapsto> VFloat l1, ''load_5min'' \<mapsto> VFloat l5)))))"

section \<open>The scheduling-latency probe\<close>

definition LATENCY_WARN_US :: int where
  "LATENCY_WARN_US = 3000"

text \<open>
  \<^verbatim>\<open>int(ds)\<close> for a run of decimal digits. An interpreter that limits the number of
  digits \<^verbatim>\<open>int\<close> accepts raises on a longer run, and the probe then returns
  \<^verbatim>\<open>None\<close>; that limit is not part of this model.
\<close>

definition dec_value :: "string \<Rightarrow> nat" where
  "dec_value ds = foldl (\<lambda>acc c. 10 * acc + ((of_char c :: nat) - 48)) 0 ds"

text \<open>
  \<^verbatim>\<open>Max:\s*(\d+)\<close> at the start of a text, with the number of group 1. White space and
  digits are taken greedily; giving back white space cannot help, since no white space
  is a digit.
\<close>

definition match_max :: "string \<Rightarrow> nat option" where
  "match_max s =
     (if prefix ''Max:'' s then
        (let ds = takeWhile is_digit (dropWhile py_isspace (drop 4 s))
         in if ds = [] then None else Some (dec_value ds))
      else None)"

text \<open>\<^verbatim>\<open>re.search\<close>: the leftmost position where the pattern matches.\<close>

fun search_max :: "string \<Rightarrow> nat option" where
  "search_max [] = None"
| "search_max (c # cs) =
     (case match_max (c # cs) of
        Some n \<Rightarrow> Some n
      | None \<Rightarrow> search_max cs)"

definition LatencyMonitor_check :: "exn + completed_process \<Rightarrow> exn + pydict option" where
  "LatencyMonitor_check run =
     (case run of
        Inl e \<Rightarrow> Inr None
      | Inr result \<Rightarrow>
          (if returncode result = 0 then
             (case search_max (stdout result) of
                Some max_lat \<Rightarrow>
                  Inr (Some (Map.empty(''max_latency_us'' \<mapsto> VInt (int max_lat),
                                       ''latency_high'' \<mapsto> VBool (LATENCY_WARN_US < int max_lat))))
              | None \<Rightarrow> Inr None)
           else Inr None))"

section \<open>The firmware-log-tail probe\<close>

text \<open>
  \<^verbatim>\<open>MCU '.*' shutdown\<close> at the start of a text: after \<^verbatim>\<open>MCU '\<close>, any characters but
  the newline, then \<^verbatim>\<open>' shutdown\<close>.
\<close>

fun dot_star_then :: "string \<Rightarrow> string \<Rightarrow> bool" where
  "dot_star_then p [] = prefix p []"
| "dot_star_then p (c # cs) = (prefix p (c # cs) \<or> (c \<noteq> CHR 0x0A \<and> dot_star_then p cs))"

definition match_mcu_shutdown :: "string \<Rightarrow> bool" where
  "match_mcu_shutdown s =
     (prefix (''MCU '' @ [CHR 0x27]) s \<and> dot_star_then (CHR 0x27 # '' shutdown'') (drop 5 s))"

text \<open>The dict \<^verbatim>\<open>self.patterns\<close>, in insertion order.\<close>

definition log_patterns :: "(string \<times> (string \<Rightarrow> bool)) list" where
  "log_patterns =
     [(''timer_close'', re_search (prefix ''Timer too close'')),
      (''mcu_shutdown'', re_search match_mcu_shutdown),
      (''lost_comm'', re_search (prefix ''Timeout on serial communication''))]"

text \<open>What one line appends to \<^verbatim>\<open>errors\<close>: an entry for every pattern found in it.\<close>

definition line_errors :: "string \<Rightarrow> string list" where
  "line_errors line =
     map (\<lambda>(key, pat). key @ '': '' @ take 60 (py_strip line))
       (filter (\<lambda>(key, pat). pat line) log_patterns)"

definition scan_lines :: "string list \<Rightarrow> string list" where
  "scan_lines new_lines = concat (map line_errors new_lines)"

record LogMonitor =
  file_pos :: nat

text \<open>
  The file system as one \<^verbatim>\<open>LogMonitor.check\<close> meets it: \<^verbatim>\<open>os.path.exists\<close>,
  \<^verbatim>\<open>os.path.getsize\<close>, and for an offset the outcome of \<^verbatim>\<open>open\<close>, \<^verbatim>\<open>seek\<close>,
  \<^verbatim>\<open>readlines\<close> and \<^verbatim>\<open>tell\<close>: the lines read and the position told, or the exception
  one of the four raised.
\<close>

record log_env =
  path_exists :: bool
  getsize :: "exn + nat"
  read_from :: "nat \<Rightarrow> exn + string list \<times> nat"

text \<open>
  \<^verbatim>\<open>LogMonitor.check\<close>. The offset is reset before the read, and a read that raises
  leaves it as it then stands. An empty \<^verbatim>\<open>data\<close> is returned as \<^verbatim>\<open>None\<close>.
\<close>

definition LogMonitor_check ::
  "log_env \<Rightarrow> LogMonitor \<Rightarrow> (exn + pydict option) \<times> LogMonitor" where
  "LogMonitor_check env st =
     (if \<not> path_exists env then (Inr None, st)
      else
        (case getsize env of
           Inl e \<Rightarrow> (Inr None, st)
         | Inr current_size \<Rightarrow>
             (let st1 = (if current_size < file_pos st then st\<lparr>file_pos := 0\<rparr> else st)
              in if file_pos st1 < current_size then
                   (case read_from env (file_pos st1) of
                      Inl e \<Rightarrow> (Inr None, st1)
                    | Inr (new_lines, told) \<Rightarrow>
                        (let errors = scan_lines new_lines;
                             st2 = st1\<lparr>file_pos := told\<rparr>
                         in if errors \<noteq> []
                            then (Inr (Some (Map.empty(''log_errors'' \<mapsto> VStr (py_join ''; '' errors)))), st2)
                            else (Inr None, st2)))
                 else (Inr None, st1))))"

subsection \<open>A log file with known content\<close>

text \<open>Text mode: \<^verbatim>\<open>\r\n\<close> and \<^verbatim>\<open>\r\<close> are read as \<^verbatim>\<open>\n\<close>.\<close>

fun universal_newlines :: "string \<Rightarrow> string" where
  "universal_newlines [] = []"
| "universal_newlines [c] = (if c = CHR 0x0D then [CHR 0x0A] else [c])"
| "universal_newlines (c # d # s) =
     (if c = CHR 0x0D then
        (if d = CHR 0x0A then CHR 0x0A # universal_newlines s
         else CHR 0x0A # universal_newlines (d # s))
      else c # universal_newlines (d # s))"

text \<open>\<^verbatim>\<open>readlines\<close>: every line keeps its newline; the last one may lack it.\<close>

fun keep_ends :: "string \<Rightarrow> string list" where
  "keep_ends [] = []"
| "keep_ends (c # cs) =
     (if c = CHR 0x0A then [c] # keep_ends cs
      else (case keep_ends cs of
              [] \<Rightarrow> [[c]]
            | l # ls \<Rightarrow> (c # l) # ls))"

definition readlines :: "string \<Rightarrow> string list" where
  "readlines bytes = keep_ends (universal_newlines bytes)"

text \<open>
  The environment of a check during which the log file does not change and no call
  fails: \<open>None\<close> is no file, \<open>Some content\<close> a file of these bytes, each byte read as one
  character. The read returns the lines from the offset to the end and tells the end.
\<close>

definition log_snapshot :: "string option \<Rightarrow> log_env" where
  "log_snapshot f =
     (case f of
        None \<Rightarrow>
          \<lparr>path_exists = False, getsize = Inl (EnvError ''No such file or directory''),
           read_from = (\<lambda>pos. Inl (EnvError ''No such file or directory''))\<rparr>
      | Some content \<Rightarrow>
          \<lparr>path_exists = True, getsize = Inr (length content),
           read_from = (\<lambda>pos. Inr (readlines (drop pos content), length content))\<rparr>)"

text \<open>The bytes a check passes to the patterns: those from the offset it reads at.\<close>

definition bytes_scanned :: "string \<Rightarrow> LogMonitor \<Rightarrow> string" where
  "bytes_scanned content st =
     (if length content < file_pos st then content else drop (file_pos st) content)"

text \<open>Successive checks, one for each state of the file, and the bytes each scanned.\<close>

fun log_run :: "string list \<Rightarrow> LogMonitor \<Rightarrow> string list \<times> LogMonitor" where
  "log_run [] st = ([], st)"
| "log_run (content # rest) st =
     (let st' = snd (LogMonitor_check (log_snapshot (Some content)) st);
          (chunks, st'') = log_run rest st'
      in (bytes_scanned content st # chunks, st''))"

section \<open>The recorder\<close>

definition CSV_HEADERS :: "string list" where
  "CSV_HEADERS =
     [''timestamp'', ''check_duration_ms'',
      ''throttled_hex'', ''throttled_alarm'', ''ue_now'', ''freq_cap_now'', ''throt_now'',
      ''soft_temp_now'',
      ''core_voltage'', ''cpu_temp'', ''temp_warning'',
      ''cpu_usage'', ''cpu_saturation'', ''ram_used_pct'', ''swap_used_mb'', ''mem_pressure'',
      ''load_1min'', ''load_5min'',
      ''max_latency_us'', ''latency_high'',
      ''usb_events'', ''log_errors'', ''notes'']"

text \<open>
  \<^verbatim>\<open>csv.DictWriter(f, fieldnames, extrasaction='ignore')\<close> turns a dict into the list
  of values that \<^verbatim>\<open>csv.writer\<close> writes as one row: for every field name in order the
  value of the dict, or the \<^verbatim>\<open>restval\<close>, the empty string, which is written as an
  empty cell. Keys that are no field names are not looked at.
\<close>

definition dict_to_list :: "string list \<Rightarrow> pydict \<Rightarrow> pyval list" where
  "dict_to_list fieldnames rowdict =
     map (\<lambda>key. case rowdict key of None \<Rightarrow> VStr [] | Some v \<Rightarrow> v) fieldnames"

text \<open>
  The two sinks, each as the rows written to it so far: \<open>main_file\<close> is
  \<^verbatim>\<open>self.file\<close>, and \<open>backup_file\<close> is \<open>None\<close> when no backup directory was given.
\<close>

record CSVLogger =
  main_file :: "pyval list list"
  backup_file :: "pyval list list option"

text \<open>
  The clock that \<^verbatim>\<open>datetime.now()\<close> reads in \<^verbatim>\<open>log\<close>, and the outcome of each write
  call in the order of the source: \<open>None\<close> when the call returns, the exception when it
  raises. A \<^verbatim>\<open>writerow\<close> that raises adds no row.
\<close>

record log_io =
  now :: rat
  main_writerow :: "exn option"
  main_flush :: "exn option"
  main_fsync :: "exn option"
  backup_writerow :: "exn option"
  backup_flush :: "exn option"

definition log_row :: "rat \<Rightarrow> pydict \<Rightarrow> pydict" where
  "log_row t data = (Map.empty(''timestamp'' \<mapsto> VTime t)) ++ data"

definition logging_failed :: "exn \<Rightarrow> string" where
  "logging_failed e = ''Logging failed: '' @ str_exn e"

text \<open>
  \<^verbatim>\<open>CSVLogger.log\<close>: what it raises (nothing), the lines it prints, and the sinks
  afterwards. All write calls stand in one \<^verbatim>\<open>try\<close>; the first one to raise ends it.
\<close>

definition CSVLogger_log ::
  "log_io \<Rightarrow> pydict \<Rightarrow> CSVLogger \<Rightarrow> (exn + unit) \<times> string list \<times> CSVLogger" where
  "CSVLogger_log io data lg =
     (let row = dict_to_list CSV_HEADERS (log_row (now io) data)
      in case main_writerow io of
           Some e \<Rightarrow> (Inr (), [logging_failed e], lg)
         | None \<Rightarrow>
             (let lg1 = lg\<lparr>main_file := main_file lg @ [row]\<rparr>
              in case main_flush io of
                   Some e \<Rightarrow> (Inr (), [logging_failed e], lg1)
                 | None \<Rightarrow>
                     (case main_fsync io of
                        Some e \<Rightarrow> (Inr (), [logging_failed e], lg1)
                      | None \<Rightarrow>
                          (case backup_file lg1 of
                             None \<Rightarrow> (Inr (), [], lg1)
                           | Some rows \<Rightarrow>
                               (case backup_writerow io of
                                  Some e \<Rightarrow> (Inr (), [logging_failed e], lg1)
                                | None \<Rightarrow>
                                    (let lg2 = lg1\<lparr>backup_file := Some (rows @ [row])\<rparr>
                                     in case backup_flush io of
                                          Some e \<Rightarrow> (Inr (), [logging_failed e], lg2)
                                        | None \<Rightarrow> (Inr (), [], lg2)))))))"

section \<open>One cycle of the main loop\<close>

record monitors =
  usb :: USBMonitor
  system :: SystemMonitor
  klipper_log :: LogMonitor

text \<open>
  Everything one pass of the \<^verbatim>\<open>while\<close> loop reads from outside, in the order it is
  read: the clock at the top, the five probes' calls, the clock after the probes, and
  the calls of \<^verbatim>\<open>logger.log\<close>. Clock readings are in seconds.
\<close>

record cycle_env =
  start_time :: rat
  usb_run :: "exn + completed_process"
  power_run :: power_env
  system_run :: system_env
  latency_run :: "exn + completed_process"
  log_files :: log_env
  end_time :: rat
  logger_io :: log_io

text \<open>
  The body of the \<^verbatim>\<open>for\<close> loop for one probe. A record is merged, \<^verbatim>\<open>None\<close> and the
  empty dict add nothing, and an exception is printed with the probe's name.
\<close>

definition merge_result ::
  "string \<Rightarrow> exn + pydict option \<Rightarrow> pydict \<times> string list \<Rightarrow> pydict \<times> string list" where
  "merge_result name r acc =
     (case r of
        Inl e \<Rightarrow> (fst acc, snd acc @ [''Monitor '' @ name @ '' error: '' @ str_exn e])
      | Inr None \<Rightarrow> acc
      | Inr (Some res) \<Rightarrow> (fst acc ++ res, snd acc))"

text \<open>The probes in the order of the list \<^verbatim>\<open>monitors\<close>, then the duration.\<close>

definition run_monitors ::
  "(string \<Rightarrow> pyfloat option) \<Rightarrow> cycle_env \<Rightarrow> monitors \<Rightarrow> (pydict \<times> string list) \<times> monitors" where
  "run_monitors py_float env ms =
     (let (r1, u') = USBMonitor_check (usb_run env) (usb ms);
          a1 = merge_result ''USB'' r1 (Map.empty, []);
          a2 = merge_result ''Power'' (PowerMonitor_check py_float (power_run env)) a1;
          a3 = merge_result ''System'' (SystemMonitor_check (system_run env) (system ms)) a2;
          a4 = merge_result ''Latency'' (LatencyMonitor_check (latency_run env)) a3;
          (r5, l') = LogMonitor_check (log_files env) (klipper_log ms);
          a5 = merge_result ''KlipperLog'' r5 a4
      in (a5, ms\<lparr>usb := u', klipper_log := l'\<rparr>))"

definition check_duration_ms :: "cycle_env \<Rightarrow> pyval" where
  "check_duration_ms env = VFloat (round2 (Finite ((end_time env - start_time env) * 1000)))"

text \<open>
  One pass of the loop up to and including \<^verbatim>\<open>logger.log(current_data)\<close>: the lines
  printed, the probes and the sinks afterwards.
\<close>

definition cycle ::
  "(string \<Rightarrow> pyfloat option) \<Rightarrow> cycle_env \<Rightarrow> monitors \<times> CSVLogger
     \<Rightarrow> string list \<times> monitors \<times> CSVLogger" where
  "cycle py_float env s =
     (let ((data, printed), ms') = run_monitors py_float env (fst s);
          current_data = data(''check_duration_ms'' \<mapsto> check_duration_ms env);
          (r, printed', lg') = CSVLogger_log (logger_io env) current_data (snd s)
      in (printed @ printed', ms', lg'))"

section \<open>Notions and example inputs for the properties\<close>

text \<open>A float parser that reads the two texts of the examples below.\<close>

definition floats_example :: "string \<Rightarrow> pyfloat option" where
  "floats_example = Map.empty(''1.2000'' \<mapsto> Finite (6 / 5), ''45.0'' \<mapsto> Finite 45)"

text \<open>The first of the three calls on the main file to raise, if any.\<close>

definition main_failure :: "log_io \<Rightarrow> exn option" where
  "main_failure io =
     (case main_writerow io of
        Some e \<Rightarrow> Some e
      | None \<Rightarrow> (case main_flush io of Some e \<Rightarrow> Some e | None \<Rightarrow> main_fsync io))"

text \<open>The first of the two calls on the backup file to raise, if any.\<close>

definition backup_failure :: "log_io \<Rightarrow> exn option" where
  "backup_failure io =
     (case backup_writerow io of Some e \<Rightarrow> Some e | None \<Rightarrow> backup_flush io)"

text \<open>
  A host without \<^verbatim>\<open>vcgencmd\<close>, \<^verbatim>\<open>cyclictest\<close>, \<^verbatim>\<open>psutil\<close> and Klipper log, on which
  \<^verbatim>\<open>os.getloadavg\<close> fails; the probes take a quarter of a second, and the clock of
  \<^verbatim>\<open>log\<close> is read a millisecond after that.
\<close>

definition bare_host :: cycle_env where
  "bare_host =
     \<lparr>start_time = 100,
      usb_run = Inr \<lparr>returncode = 0, stdout = []\<rparr>,
      power_run =
        \<lparr>get_throttled = Inl (EnvError ''No such file or directory''),
         measure_volts = Inl (EnvError ''No such file or directory''),
         measure_temp = Inl (EnvError ''No such file or directory'')\<rparr>,
      system_run =
        \<lparr>cpu_percent = Inl (EnvError ''psutil is missing''),
         virtual_memory = Inl (EnvError ''psutil is missing''),
         swap_memory = Inl (EnvError ''psutil is missing''),
         getloadavg = Inl (EnvError ''Unexpected error in getloadavg()'')\<rparr>,
      latency_run = Inl (EnvError ''No such file or directory''),
      log_files = log_snapshot None,
      end_time = 401 / 4,
      logger_io =
        \<lparr>now = 100251 / 1000, main_writerow = None, main_flush = None, main_fsync = None,
         backup_writerow = None, backup_flush = None\<rparr>\<rparr>"

definition fresh_monitors :: monitors where
  "fresh_monitors =
     \<lparr>usb = \<lparr>last_seen_lines = []\<rparr>, system = \<lparr>psutil = False\<rparr>,
      klipper_log = \<lparr>file_pos = 0\<rparr>\<rparr>"

text \<open>
  What \<^verbatim>\<open>dmesg\<close> prints in two consecutive cycles when the kernel log has 21 lines
  and then one more; and in two cycles when a line of the log ends in a space.
\<close>

definition kernel_log_21 :: completed_process where
  "kernel_log_21 =
     \<lparr>returncode = 0,
      stdout = ''usb disconnect\<newline>a\<newline>b\<newline>c\<newline>d\<newline>e\<newline>f\<newline>g\<newline>h\<newline>i\<newline>j\<newline>k\<newline>l\<newline>m\<newline>n\<newline>o\<newline>p\<newline>q\<newline>r\<newline>s\<newline>t\<newline>''\<rparr>"

definition kernel_log_22 :: completed_process where
  "kernel_log_22 =
     \<lparr>returncode = 0,
      stdout = ''usb disconnect\<newline>a\<newline>b\<newline>c\<newline>d\<newline>e\<newline>f\<newline>g\<newline>h\<newline>i\<newline>j\<newline>k\<newline>l\<newline>m\<newline>n\<newline>o\<newline>p\<newline>q\<newline>r\<newline>s\<newline>t\<newline>ttyACM0 disconnect\<newline>''\<rparr>"

definition kernel_log_padded :: completed_process where
  "kernel_log_padded =
     \<lparr>returncode = 0, stdout = ''usb disconnect \<newline>eth0: link up\<newline>''\<rparr>"

definition kernel_log_padded_next :: completed_process where
  "kernel_log_padded_next =
     \<lparr>returncode = 0,
      stdout = ''usb disconnect \<newline>eth0: link up\<newline>ttyACM0 disconnect\<newline>''\<rparr>"

section \<open>Properties of the power and thermal probe\<close>

lemma throttle_flags_other: "k \<notin> set throttle_keys \<Longrightarrow> throttle_flags v d k = d k"
  by (simp add: throttle_flags_def throttle_keys_def Let_def)

lemma check_throttled_other:
  "k \<notin> set throttle_keys \<Longrightarrow> block_dict (check_throttled env d) k = d k"
  by (auto simp: check_throttled_def block_dict_def throttle_flags_other
       split: sum.splits) (simp add: throttle_keys_def)

lemma check_throttled_Inl: "check_throttled env d = Inl x \<Longrightarrow> x = d"
  by (auto simp: check_throttled_def split: sum.splits if_splits)

lemma check_voltage_Inl: "check_voltage pf env d = Inl x \<Longrightarrow> x = d"
  by (auto simp: check_voltage_def split: sum.splits if_splits option.splits)

lemma check_temp_Inl: "check_temp pf env d = Inl x \<Longrightarrow> x = d"
  by (auto simp: check_temp_def Let_def split: sum.splits if_splits option.splits)

lemma check_voltage_isl: "isl (check_voltage pf env d) = voltage_raises pf env"
  by (auto simp: check_voltage_def voltage_raises_def split: sum.splits if_splits option.splits)

lemma check_temp_isl: "isl (check_temp pf env d) = temp_raises pf env"
  by (auto simp: check_temp_def temp_raises_def Let_def split: sum.splits if_splits option.splits)

lemma check_voltage_field:
  "block_dict (check_voltage pf env d) k =
     (if k = ''core_voltage'' \<and> block_dict (check_voltage pf env Map.empty) k \<noteq> None
      then block_dict (check_voltage pf env Map.empty) k else d k)"
  by (auto simp: check_voltage_def block_dict_def split: sum.splits if_splits option.splits)

lemma check_temp_field:
  "block_dict (check_temp pf env d) k =
     (if block_dict (check_temp pf env Map.empty) k \<noteq> None
      then block_dict (check_temp pf env Map.empty) k else d k)"
  by (auto simp: check_temp_def block_dict_def Let_def split: sum.splits if_splits option.splits)

lemma check_temp_keys:
  "block_dict (check_temp pf env Map.empty) k \<noteq> None \<Longrightarrow> k = ''cpu_temp'' \<or> k = ''temp_warning''"
  by (auto simp: check_temp_def block_dict_def Let_def split: sum.splits if_splits option.splits)

lemma PowerMonitor_check_dict:
  "PowerMonitor_check pf env = Inr (Some
     (if throttled_raises env then Map.empty
      else if voltage_raises pf env then block_dict (check_throttled env Map.empty)
      else block_dict (check_temp pf env (block_dict (check_voltage pf env (block_dict (check_throttled env Map.empty)))))))"
proof (cases "check_throttled env Map.empty")
  case (Inl x)
  then show ?thesis
    using check_throttled_Inl [OF Inl]
    by (simp add: PowerMonitor_check_def throttled_raises_def)
next
  case thr: (Inr d1)
  show ?thesis
  proof (cases "check_voltage pf env d1")
    case (Inl x)
    then have "voltage_raises pf env"
      using check_voltage_isl [of pf env d1] by simp
    then show ?thesis
      using thr Inl check_voltage_Inl [OF Inl]
      by (simp add: PowerMonitor_check_def throttled_raises_def block_dict_def)
  next
    case vol: (Inr d2)
    then have nv: "\<not> voltage_raises pf env"
      using check_voltage_isl [of pf env d1] by simp
    show ?thesis
    proof (cases "check_temp pf env d2")
      case (Inl x)
      then show ?thesis
        using thr vol nv check_temp_Inl [OF Inl]
        by (simp add: PowerMonitor_check_def throttled_raises_def block_dict_def)
    next
      case (Inr d3)
      then show ?thesis
        using thr vol nv
        by (simp add: PowerMonitor_check_def throttled_raises_def block_dict_def)
    qed
  qed
qed

lemma power_throttle_fields:
  assumes "k \<in> set throttle_keys"
  shows "result_field (PowerMonitor_check pf env) k = block_dict (check_throttled env Map.empty) k"
proof -
  have k1: "k \<noteq> ''core_voltage''" and k2: "k \<noteq> ''cpu_temp''" and k3: "k \<noteq> ''temp_warning''"
    using assms by (auto simp: throttle_keys_def)
  have t: "block_dict (check_temp pf env Map.empty) k = None"
    using check_temp_keys [of pf env k] k2 k3 by blast
  have e: "throttled_raises env \<Longrightarrow> block_dict (check_throttled env Map.empty) k = None"
    by (auto simp: throttled_raises_def block_dict_def isl_def dest: check_throttled_Inl)
  show ?thesis
    unfolding PowerMonitor_check_dict result_field_def
    using k1 t e
    by (simp add: check_temp_field [of pf env "block_dict (check_voltage pf env x)" for x]
        check_voltage_field [of pf env "block_dict (check_throttled env Map.empty)"])
qed

lemma check_throttled_value:
  assumes "get_throttled env = Inr res" and "returncode res = 0"
    and "value_field res = Inr val_str" and "py_int16 val_str = Inr v"
  shows "check_throttled env d = Inr (throttle_flags v (d(''throttled_hex'' \<mapsto> VStr val_str)))"
  using assms by (simp add: check_throttled_def)

lemma mask_bit:
  "(v AND 1 \<noteq> 0) = bit v 0" "(v AND 2 \<noteq> 0) = bit v 1"
  "(v AND 4 \<noteq> 0) = bit v 2" "(v AND 8 \<noteq> 0) = bit v 3" for v :: int
  using and_exp_eq_0_iff_not_bit [of v 0] and_exp_eq_0_iff_not_bit [of v 1]
    and_exp_eq_0_iff_not_bit [of v 2] and_exp_eq_0_iff_not_bit [of v 3]
  by simp_all

lemma bit_nonzero: "bit v n \<Longrightarrow> v \<noteq> 0" for v :: int
  by auto

lemma throttle_flags_decoded:
  "throttle_flags v (Map.empty(''throttled_hex'' \<mapsto> VStr val_str)) ''throttled_hex''
     = Some (VStr val_str)"
  "throttle_flags v (Map.empty(''throttled_hex'' \<mapsto> VStr val_str)) ''throttled_alarm''
     = (if v \<noteq> 0 then Some (VBool True) else None)"
  "throttle_flags v (Map.empty(''throttled_hex'' \<mapsto> VStr val_str)) ''ue_now''
     = (if bit v 0 then Some (VBool True) else None)"
  "throttle_flags v (Map.empty(''throttled_hex'' \<mapsto> VStr val_str)) ''freq_cap_now''
     = (if bit v 1 then Some (VBool True) else None)"
  "throttle_flags v (Map.empty(''throttled_hex'' \<mapsto> VStr val_str)) ''throt_now''
     = (if bit v 2 then Some (VBool True) else None)"
  "throttle_flags v (Map.empty(''throttled_hex'' \<mapsto> VStr val_str)) ''soft_temp_now''
     = (if bit v 3 then Some (VBool True) else None)"
  using bit_nonzero [of v]
  by (auto simp: throttle_flags_def mask_bit Let_def)

lemma mask_0x50005_bits:
  "bit (0x50005 :: int) 0" "\<not> bit (0x50005 :: int) 1"
  "bit (0x50005 :: int) 2" "\<not> bit (0x50005 :: int) 3"
  by (simp_all add: mask_bit [symmetric])

text \<open>
  Claim C1, as the code has it. When \<^verbatim>\<open>vcgencmd get_throttled\<close> exits with code 0 and
  the text after its \<^verbatim>\<open>=\<close> reads as the mask \<open>v\<close>, the record that
  \<^verbatim>\<open>PowerMonitor.check\<close> returns has \<^verbatim>\<open>throttled_alarm\<close> exactly when \<open>v\<close> is not zero,
  and has, each with the value true, \<^verbatim>\<open>ue_now\<close> exactly when bit 0 of \<open>v\<close> is set,
  \<^verbatim>\<open>freq_cap_now\<close> exactly when bit 1 is set, \<^verbatim>\<open>throt_now\<close> exactly when bit 2 is set and
  \<^verbatim>\<open>soft_temp_now\<close> exactly when bit 3 is set. For the mask \<^verbatim>\<open>0x50005\<close>, which has the
  bits 0, 2, 16 and 18, the record therefore has \<^verbatim>\<open>throttled_alarm\<close>, \<^verbatim>\<open>ue_now\<close> and
  \<^verbatim>\<open>throt_now\<close>, and has neither \<^verbatim>\<open>freq_cap_now\<close> nor \<^verbatim>\<open>soft_temp_now\<close>.
\<close>

theorem throttle_mask_decoding:
  assumes "get_throttled env = Inr res" and "returncode res = 0"
    and "value_field res = Inr val_str" and "py_int16 val_str = Inr v"
  shows "result_field (PowerMonitor_check py_float env) ''throttled_hex'' = Some (VStr val_str)
       \<and> result_field (PowerMonitor_check py_float env) ''throttled_alarm''
           = (if v \<noteq> 0 then Some (VBool True) else None)
       \<and> result_field (PowerMonitor_check py_float env) ''ue_now''
           = (if bit v 0 then Some (VBool True) else None)
       \<and> result_field (PowerMonitor_check py_float env) ''freq_cap_now''
           = (if bit v 1 then Some (VBool True) else None)
       \<and> result_field (PowerMonitor_check py_float env) ''throt_now''
           = (if bit v 2 then Some (VBool True) else None)
       \<and> result_field (PowerMonitor_check py_float env) ''soft_temp_now''
           = (if bit v 3 then Some (VBool True) else None)
       \<and> (v = 0x50005 \<longrightarrow>
            result_field (PowerMonitor_check py_float env) ''throttled_alarm'' = Some (VBool True)
            \<and> result_field (PowerMonitor_check py_float env) ''ue_now'' = Some (VBool True)
            \<and> result_field (PowerMonitor_check py_float env) ''throt_now'' = Some (VBool True)
            \<and> result_field (PowerMonitor_check py_float env) ''freq_cap_now'' = None
            \<and> result_field (PowerMonitor_check py_float env) ''soft_temp_now'' = None)"
proof -
  have c: "check_throttled env Map.empty =
             Inr (throttle_flags v (Map.empty(''throttled_hex'' \<mapsto> VStr val_str)))"
    using assms by (rule check_throttled_value)
  have f: "result_field (PowerMonitor_check py_float env) k =
             throttle_flags v (Map.empty(''throttled_hex'' \<mapsto> VStr val_str)) k"
    if "k \<in> set throttle_keys" for k
    using power_throttle_fields [OF that, of py_float env] c by (simp add: block_dict_def)
  have g: "result_field (PowerMonitor_check py_float env) ''throttled_hex'' = Some (VStr val_str)"
    "result_field (PowerMonitor_check py_float env) ''throttled_alarm''
           = (if v \<noteq> 0 then Some (VBool True) else None)"
    "result_field (PowerMonitor_check py_float env) ''ue_now''
           = (if bit v 0 then Some (VBool True) else None)"
    "result_field (PowerMonitor_check py_float env) ''freq_cap_now''
           = (if bit v 1 then Some (VBool True) else None)"
    "result_field (PowerMonitor_check py_float env) ''throt_now''
           = (if bit v 2 then Some (VBool True) else None)"
    "result_field (PowerMonitor_check py_float env) ''soft_temp_now''
           = (if bit v 3 then Some (VBool True) else None)"
    by (simp_all add: f throttle_keys_def throttle_flags_decoded)
  show ?thesis
    using g mask_0x50005_bits by simp
qed

lemma strip_throttled_0x50005:
  "py_strip (''throttled=0x50005'' @ [CHR 0x0A]) = ''throttled=0x50005''"
  by (simp add: py_strip_def py_lstrip_def py_rstrip_def py_isspace_def)

lemma value_field_0x50005:
  "value_field \<lparr>returncode = 0, stdout = ''throttled=0x50005'' @ [CHR 0x0A]\<rparr> = Inr ''0x50005''"
  using strip_throttled_0x50005 by (simp add: value_field_def py_index_def)

lemma py_int16_0x50005: "py_int16 ''0x50005'' = Inr 0x50005"
  by (simp add: py_int16_def int_strip_def int_isspace_def
      hex_magnitude_def hex_body_def hex_val_def)

text \<open>A separator before the number: \<^verbatim>\<open>int\<close> raises, where \<^verbatim>\<open>strip\<close> would remove it.\<close>

lemma py_int16_separator: "py_int16 (CHR 0x1F # ''0x50005'') = Inl ValueError"
  by (simp add: py_int16_def int_strip_def int_isspace_def
      hex_magnitude_def hex_body_def hex_val_def)

theorem throttle_mask_decoding_witness:
  "result_field (PowerMonitor_check Map.empty
      \<lparr>get_throttled = Inr \<lparr>returncode = 0, stdout = ''throttled=0x50005'' @ [CHR 0x0A]\<rparr>,
       measure_volts = Inr \<lparr>returncode = 1, stdout = []\<rparr>,
       measure_temp = Inr \<lparr>returncode = 1, stdout = []\<rparr>\<rparr>) ''throt_now'' = Some (VBool True)
   \<and> result_field (PowerMonitor_check Map.empty
      \<lparr>get_throttled = Inr \<lparr>returncode = 0, stdout = ''throttled=0x50005'' @ [CHR 0x0A]\<rparr>,
       measure_volts = Inr \<lparr>returncode = 1, stdout = []\<rparr>,
       measure_temp = Inr \<lparr>returncode = 1, stdout = []\<rparr>\<rparr>) ''soft_temp_now'' = None
   \<and> result_field (PowerMonitor_check Map.empty
      \<lparr>get_throttled = Inr \<lparr>returncode = 0, stdout = ''throttled=0x50005'' @ [CHR 0x0A]\<rparr>,
       measure_volts = Inr \<lparr>returncode = 1, stdout = []\<rparr>,
       measure_temp = Inr \<lparr>returncode = 1, stdout = []\<rparr>\<rparr>) ''throttled_hex''
     = Some (VStr ''0x50005'')"
  using throttle_mask_decoding [of
      "\<lparr>get_throttled = Inr \<lparr>returncode = 0, stdout = ''throttled=0x50005'' @ [CHR 0x0A]\<rparr>,
       measure_volts = Inr \<lparr>returncode = 1, stdout = []\<rparr>,
       measure_temp = Inr \<lparr>returncode = 1, stdout = []\<rparr>\<rparr>"
      "\<lparr>returncode = 0, stdout = ''throttled=0x50005'' @ [CHR 0x0A]\<rparr>" "''0x50005''"
      "0x50005" Map.empty]
    value_field_0x50005 py_int16_0x50005
  by simp

theorem throttle_0x50005_counterexample:
  "result_field (PowerMonitor_check Map.empty
      \<lparr>get_throttled = Inr \<lparr>returncode = 0, stdout = ''throttled=0x50005'' @ [CHR 0x0A]\<rparr>,
       measure_volts = Inr \<lparr>returncode = 1, stdout = []\<rparr>,
       measure_temp = Inr \<lparr>returncode = 1, stdout = []\<rparr>\<rparr>) ''soft_temp_now'' = None
   \<and> result_field (PowerMonitor_check Map.empty
      \<lparr>get_throttled = Inr \<lparr>returncode = 0, stdout = ''throttled=0x50005'' @ [CHR 0x0A]\<rparr>,
       measure_volts = Inr \<lparr>returncode = 1, stdout = []\<rparr>,
       measure_temp = Inr \<lparr>returncode = 1, stdout = []\<rparr>\<rparr>) ''throt_now'' = Some (VBool True)"
  using value_field_0x50005 py_int16_0x50005
  by (simp add: PowerMonitor_check_def check_throttled_def check_voltage_def check_temp_def
      result_field_def throttle_flags_def)

lemma throttled_raises_empty:
  "throttled_raises env \<Longrightarrow> block_dict (check_throttled env Map.empty) = Map.empty"
  by (auto simp: throttled_raises_def block_dict_def isl_def dest: check_throttled_Inl)

lemma voltage_raises_empty:
  "voltage_raises pf env \<Longrightarrow> block_dict (check_voltage pf env Map.empty) = Map.empty"
  by (auto simp: voltage_raises_def block_dict_def isl_def dest: check_voltage_Inl)

lemma check_voltage_none:
  "k \<noteq> ''core_voltage'' \<Longrightarrow> block_dict (check_voltage pf env Map.empty) k = None"
  by (auto simp: check_voltage_def block_dict_def split: sum.splits if_splits option.splits)

lemma check_temp_none:
  "k \<noteq> ''cpu_temp'' \<Longrightarrow> k \<noteq> ''temp_warning'' \<Longrightarrow> block_dict (check_temp pf env Map.empty) k = None"
  by (auto simp: check_temp_def block_dict_def Let_def split: sum.splits if_splits option.splits)

lemma power_voltage_field:
  "result_field (PowerMonitor_check pf env) ''core_voltage'' =
     (if throttled_raises env then None
      else block_dict (check_voltage pf env Map.empty) ''core_voltage'')"
proof -
  have t: "block_dict (check_temp pf env Map.empty) ''core_voltage'' = None"
    by (rule check_temp_none) simp_all
  have o: "block_dict (check_throttled env Map.empty) ''core_voltage'' = None"
    using check_throttled_other [of "''core_voltage''" env Map.empty]
    by (simp add: throttle_keys_def)
  show ?thesis
    unfolding PowerMonitor_check_dict result_field_def
    using t o voltage_raises_empty [of pf env]
    by (simp add: check_temp_field [of pf env "block_dict (check_voltage pf env x)" for x]
        check_voltage_field [of pf env "block_dict (check_throttled env Map.empty)"])
qed

lemma temp_raises_empty:
  "temp_raises pf env \<Longrightarrow> block_dict (check_temp pf env Map.empty) = Map.empty"
  by (auto simp: temp_raises_def block_dict_def isl_def dest: check_temp_Inl)

lemma power_temp_fields:
  assumes "k = ''cpu_temp'' \<or> k = ''temp_warning''"
  shows "result_field (PowerMonitor_check pf env) k =
     (if throttled_raises env \<or> voltage_raises pf env then None
      else block_dict (check_temp pf env Map.empty) k)"
proof -
  have v: "block_dict (check_voltage pf env Map.empty) k = None"
    using assms by (intro check_voltage_none) auto
  have o: "block_dict (check_throttled env Map.empty) k = None"
    using check_throttled_other [of k env Map.empty] assms
    by (auto simp: throttle_keys_def)
  show ?thesis
    unfolding PowerMonitor_check_dict result_field_def
    using v o assms
    by (auto simp: check_temp_field [of pf env "block_dict (check_voltage pf env x)" for x]
        check_voltage_field [of pf env "block_dict (check_throttled env Map.empty)"])
qed

lemma throttled_raises_inputs:
  "get_throttled env = Inl e \<Longrightarrow> throttled_raises env"
  "get_throttled env = Inr r \<Longrightarrow> returncode r = 0 \<Longrightarrow> value_field r = Inl e' \<Longrightarrow>
     throttled_raises env"
  "get_throttled env = Inr r \<Longrightarrow> returncode r = 0 \<Longrightarrow> value_field r = Inr s \<Longrightarrow>
     py_int16 s = Inl e' \<Longrightarrow> throttled_raises env"
  by (simp_all add: throttled_raises_def check_throttled_def)

lemma throttled_returns_inputs:
  "get_throttled env = Inr r \<Longrightarrow>
     returncode r \<noteq> 0 \<or> (value_field r = Inr s \<and> py_int16 s = Inr v) \<Longrightarrow>
     \<not> throttled_raises env"
  by (auto simp: throttled_raises_def check_throttled_def)

lemma voltage_raises_inputs:
  "measure_volts env = Inl e \<Longrightarrow> voltage_raises pf env"
  "measure_volts env = Inr r \<Longrightarrow> returncode r = 0 \<Longrightarrow> value_field r = Inl e' \<Longrightarrow>
     voltage_raises pf env"
  "measure_volts env = Inr r \<Longrightarrow> returncode r = 0 \<Longrightarrow> value_field r = Inr s \<Longrightarrow>
     pf (remove_char (CHR ''V'') s) = None \<Longrightarrow> voltage_raises pf env"
  by (simp_all add: voltage_raises_def check_voltage_def)

lemma voltage_returns_inputs:
  "measure_volts env = Inr r \<Longrightarrow>
     returncode r \<noteq> 0 \<or> (value_field r = Inr s \<and> pf (remove_char (CHR ''V'') s) = Some x) \<Longrightarrow>
     \<not> voltage_raises pf env"
  by (auto simp: voltage_raises_def check_voltage_def)

lemma throttled_alone_nonzero:
  "get_throttled env = Inr r \<Longrightarrow> returncode r \<noteq> 0 \<Longrightarrow>
     block_dict (check_throttled env Map.empty) k = None"
  by (simp add: check_throttled_def block_dict_def)

lemma voltage_alone:
  "measure_volts env = Inr r \<Longrightarrow> returncode r \<noteq> 0 \<Longrightarrow>
     block_dict (check_voltage pf env Map.empty) k = None"
  "measure_volts env = Inr r \<Longrightarrow> returncode r = 0 \<Longrightarrow> value_field r = Inr s \<Longrightarrow>
     pf (remove_char (CHR ''V'') s) = Some x \<Longrightarrow>
     block_dict (check_voltage pf env Map.empty) ''core_voltage'' = Some (VFloat x)"
  by (simp_all add: check_voltage_def block_dict_def)

lemma temp_alone:
  "measure_temp env = Inl e \<Longrightarrow> block_dict (check_temp pf env Map.empty) k = None"
  "measure_temp env = Inr r \<Longrightarrow> returncode r \<noteq> 0 \<Longrightarrow>
     block_dict (check_temp pf env Map.empty) k = None"
  "measure_temp env = Inr r \<Longrightarrow> value_field r = Inl e' \<Longrightarrow>
     block_dict (check_temp pf env Map.empty) k = None"
  "measure_temp env = Inr r \<Longrightarrow> value_field r = Inr s \<Longrightarrow> pf (remove_degC s) = None \<Longrightarrow>
     block_dict (check_temp pf env Map.empty) k = None"
  "measure_temp env = Inr r \<Longrightarrow> returncode r = 0 \<Longrightarrow> value_field r = Inr s \<Longrightarrow>
     pf (remove_degC s) = Some x \<Longrightarrow>
     block_dict (check_temp pf env Map.empty) ''cpu_temp'' = Some (VFloat x)
     \<and> block_dict (check_temp pf env Map.empty) ''temp_warning''
         = (if float_gt x TEMP_WARN_THRESHOLD then Some (VBool True) else None)"
  by (simp_all add: check_temp_def block_dict_def Let_def)

lemma power_all_suppressed:
  "throttled_raises env \<Longrightarrow> PowerMonitor_check pf env = Inr (Some Map.empty)"
  by (simp add: PowerMonitor_check_dict)

text \<open>
  Claim C4, as the code has it, stated on what the three \<^verbatim>\<open>vcgencmd\<close> calls return.
  A query raises when its call raises, or when it exits with code 0 and its output has
  no \<^verbatim>\<open>=\<close> or the text after the \<^verbatim>\<open>=\<close> does not parse. When the throttle query
  raises, the record is empty, whatever the other two queries return. When it exits with
  a non-zero code, no throttle field is set; when it is read, \<^verbatim>\<open>throttled_hex\<close> is set,
  whatever the later queries do. When the throttle query did not raise: a voltage query
  that raises leaves the voltage and the temperature fields unset, one that exits with a
  non-zero code leaves the voltage field unset, one that is read sets it. When neither
  the throttle nor the voltage query raised: a temperature query that is read sets
  \<^verbatim>\<open>cpu_temp\<close>, and \<^verbatim>\<open>temp_warning\<close> above the threshold; any other leaves both unset.
\<close>

theorem power_queries_sequenced:
  "(get_throttled env = Inl e \<longrightarrow> PowerMonitor_check pf env = Inr (Some Map.empty))
   \<and> (get_throttled env = Inr r1 \<and> returncode r1 = 0 \<and> value_field r1 = Inl e \<longrightarrow>
        PowerMonitor_check pf env = Inr (Some Map.empty))
   \<and> (get_throttled env = Inr r1 \<and> returncode r1 = 0 \<and> value_field r1 = Inr s1
        \<and> py_int16 s1 = Inl e \<longrightarrow>
        PowerMonitor_check pf env = Inr (Some Map.empty))
   \<and> (get_throttled env = Inr r1 \<and> returncode r1 \<noteq> 0 \<longrightarrow>
        list_all (\<lambda>k. result_field (PowerMonitor_check pf env) k = None) throttle_keys)
   \<and> (get_throttled env = Inr r1 \<and> returncode r1 = 0 \<and> value_field r1 = Inr s1
        \<and> py_int16 s1 = Inr v1 \<longrightarrow>
        result_field (PowerMonitor_check pf env) ''throttled_hex'' = Some (VStr s1))
   \<and> (get_throttled env = Inr r1
        \<and> (returncode r1 \<noteq> 0 \<or> (value_field r1 = Inr s1 \<and> py_int16 s1 = Inr v1))
        \<and> (measure_volts env = Inl e
            \<or> (measure_volts env = Inr r2 \<and> returncode r2 = 0
                \<and> (value_field r2 = Inl e
                    \<or> (value_field r2 = Inr s2 \<and> pf (remove_char (CHR ''V'') s2) = None)))) \<longrightarrow>
        result_field (PowerMonitor_check pf env) ''core_voltage'' = None
        \<and> result_field (PowerMonitor_check pf env) ''cpu_temp'' = None
        \<and> result_field (PowerMonitor_check pf env) ''temp_warning'' = None)
   \<and> (get_throttled env = Inr r1
        \<and> (returncode r1 \<noteq> 0 \<or> (value_field r1 = Inr s1 \<and> py_int16 s1 = Inr v1))
        \<and> measure_volts env = Inr r2 \<and> returncode r2 \<noteq> 0 \<longrightarrow>
        result_field (PowerMonitor_check pf env) ''core_voltage'' = None)
   \<and> (get_throttled env = Inr r1
        \<and> (returncode r1 \<noteq> 0 \<or> (value_field r1 = Inr s1 \<and> py_int16 s1 = Inr v1))
        \<and> measure_volts env = Inr r2 \<and> returncode r2 = 0 \<and> value_field r2 = Inr s2
        \<and> pf (remove_char (CHR ''V'') s2) = Some x2 \<longrightarrow>
        result_field (PowerMonitor_check pf env) ''core_voltage'' = Some (VFloat x2))
   \<and> (get_throttled env = Inr r1
        \<and> (returncode r1 \<noteq> 0 \<or> (value_field r1 = Inr s1 \<and> py_int16 s1 = Inr v1))
        \<and> measure_volts env = Inr r2
        \<and> (returncode r2 \<noteq> 0
            \<or> (value_field r2 = Inr s2 \<and> pf (remove_char (CHR ''V'') s2) = Some x2))
        \<and> measure_temp env = Inr r3 \<and> returncode r3 = 0 \<and> value_field r3 = Inr s3
        \<and> pf (remove_degC s3) = Some x3 \<longrightarrow>
        result_field (PowerMonitor_check pf env) ''cpu_temp'' = Some (VFloat x3)
        \<and> result_field (PowerMonitor_check pf env) ''temp_warning''
            = (if float_gt x3 TEMP_WARN_THRESHOLD then Some (VBool True) else None))
   \<and> (get_throttled env = Inr r1
        \<and> (returncode r1 \<noteq> 0 \<or> (value_field r1 = Inr s1 \<and> py_int16 s1 = Inr v1))
        \<and> measure_volts env = Inr r2
        \<and> (returncode r2 \<noteq> 0
            \<or> (value_field r2 = Inr s2 \<and> pf (remove_char (CHR ''V'') s2) = Some x2))
        \<and> (measure_temp env = Inl e
            \<or> (measure_temp env = Inr r3
                \<and> (returncode r3 \<noteq> 0 \<or> value_field r3 = Inl e
                    \<or> (value_field r3 = Inr s3 \<and> pf (remove_degC s3) = None)))) \<longrightarrow>
        result_field (PowerMonitor_check pf env) ''cpu_temp'' = None
        \<and> result_field (PowerMonitor_check pf env) ''temp_warning'' = None)"
proof -
  have A1: "get_throttled env = Inl e \<longrightarrow> PowerMonitor_check pf env = Inr (Some Map.empty)"
    using throttled_raises_inputs(1) [of env e] power_all_suppressed [of env pf] by blast
  have A2: "get_throttled env = Inr r1 \<and> returncode r1 = 0 \<and> value_field r1 = Inl e \<longrightarrow>
        PowerMonitor_check pf env = Inr (Some Map.empty)"
    using throttled_raises_inputs(2) [of env r1 e] power_all_suppressed [of env pf] by blast
  have A3: "get_throttled env = Inr r1 \<and> returncode r1 = 0 \<and> value_field r1 = Inr s1
        \<and> py_int16 s1 = Inl e \<longrightarrow>
        PowerMonitor_check pf env = Inr (Some Map.empty)"
    using throttled_raises_inputs(3) [of env r1 s1 e] power_all_suppressed [of env pf] by blast
  have B: "get_throttled env = Inr r1 \<and> returncode r1 \<noteq> 0 \<longrightarrow>
        list_all (\<lambda>k. result_field (PowerMonitor_check pf env) k = None) throttle_keys"
    using throttled_alone_nonzero [of env r1] power_throttle_fields [of _ pf env]
    by (simp add: list_all_iff)
  have C: "get_throttled env = Inr r1 \<and> returncode r1 = 0 \<and> value_field r1 = Inr s1
        \<and> py_int16 s1 = Inr v1 \<longrightarrow>
        result_field (PowerMonitor_check pf env) ''throttled_hex'' = Some (VStr s1)"
    using power_throttle_fields [of "''throttled_hex''" pf env]
      check_throttled_value [of env r1 s1 v1 Map.empty]
    by (auto simp: throttle_keys_def block_dict_def throttle_flags_decoded)
  let ?NT = "get_throttled env = Inr r1
        \<and> (returncode r1 \<noteq> 0 \<or> (value_field r1 = Inr s1 \<and> py_int16 s1 = Inr v1))"
  let ?NV = "measure_volts env = Inr r2
        \<and> (returncode r2 \<noteq> 0
            \<or> (value_field r2 = Inr s2 \<and> pf (remove_char (CHR ''V'') s2) = Some x2))"
  have nt: "?NT \<Longrightarrow> \<not> throttled_raises env"
    using throttled_returns_inputs [of env r1 s1 v1] by blast
  have nv: "?NV \<Longrightarrow> \<not> voltage_raises pf env"
    using voltage_returns_inputs [of env r2 s2 pf x2] by blast
  have D: "?NT
        \<and> (measure_volts env = Inl e
            \<or> (measure_volts env = Inr r2 \<and> returncode r2 = 0
                \<and> (value_field r2 = Inl e
                    \<or> (value_field r2 = Inr s2 \<and> pf (remove_char (CHR ''V'') s2) = None)))) \<longrightarrow>
        result_field (PowerMonitor_check pf env) ''core_voltage'' = None
        \<and> result_field (PowerMonitor_check pf env) ''cpu_temp'' = None
        \<and> result_field (PowerMonitor_check pf env) ''temp_warning'' = None"
  proof
    assume h: "?NT
        \<and> (measure_volts env = Inl e
            \<or> (measure_volts env = Inr r2 \<and> returncode r2 = 0
                \<and> (value_field r2 = Inl e
                    \<or> (value_field r2 = Inr s2 \<and> pf (remove_char (CHR ''V'') s2) = None))))"
    then have vr: "voltage_raises pf env"
      using voltage_raises_inputs [where env = env and pf = pf] by blast
    then show "result_field (PowerMonitor_check pf env) ''core_voltage'' = None
        \<and> result_field (PowerMonitor_check pf env) ''cpu_temp'' = None
        \<and> result_field (PowerMonitor_check pf env) ''temp_warning'' = None"
      using voltage_raises_empty [OF vr]
      by (simp add: power_voltage_field power_temp_fields)
  qed
  have E: "?NT \<and> measure_volts env = Inr r2 \<and> returncode r2 \<noteq> 0 \<longrightarrow>
        result_field (PowerMonitor_check pf env) ''core_voltage'' = None"
    using voltage_alone(1) [of env r2 pf] by (simp add: power_voltage_field)
  have F: "?NT \<and> measure_volts env = Inr r2 \<and> returncode r2 = 0 \<and> value_field r2 = Inr s2
        \<and> pf (remove_char (CHR ''V'') s2) = Some x2 \<longrightarrow>
        result_field (PowerMonitor_check pf env) ''core_voltage'' = Some (VFloat x2)"
    using nt voltage_alone(2) [of env r2 s2 pf x2] by (auto simp: power_voltage_field)
  have G: "?NT \<and> ?NV
        \<and> measure_temp env = Inr r3 \<and> returncode r3 = 0 \<and> value_field r3 = Inr s3
        \<and> pf (remove_degC s3) = Some x3 \<longrightarrow>
        result_field (PowerMonitor_check pf env) ''cpu_temp'' = Some (VFloat x3)
        \<and> result_field (PowerMonitor_check pf env) ''temp_warning''
            = (if float_gt x3 TEMP_WARN_THRESHOLD then Some (VBool True) else None)"
    using nt nv temp_alone(5) [of env r3 s3 pf x3]
    by (auto simp: power_temp_fields)
  have H: "?NT \<and> ?NV
        \<and> (measure_temp env = Inl e
            \<or> (measure_temp env = Inr r3
                \<and> (returncode r3 \<noteq> 0 \<or> value_field r3 = Inl e
                    \<or> (value_field r3 = Inr s3 \<and> pf (remove_degC s3) = None)))) \<longrightarrow>
        result_field (PowerMonitor_check pf env) ''cpu_temp'' = None
        \<and> result_field (PowerMonitor_check pf env) ''temp_warning'' = None"
    using temp_alone(1) [of env e pf] temp_alone(2) [of env r3 pf]
      temp_alone(3) [of env r3 e pf] temp_alone(4) [of env r3 s3 pf]
    by (auto simp: power_temp_fields)
  show ?thesis
    apply (intro conjI)
    subgoal by (fact A1)
    subgoal by (fact A2)
    subgoal by (fact A3)
    subgoal by (fact B)
    subgoal by (fact C)
    subgoal using D by blast
    subgoal using E by blast
    subgoal using F by blast
    subgoal using G by blast
    subgoal using H by blast
    done
qed


lemma value_field_volt:
  "value_field \<lparr>returncode = 0, stdout = ''volt=1.2000V'' @ [CHR 0x0A]\<rparr> = Inr ''1.2000V''"
  by (simp add: value_field_def py_index_def py_strip_def py_lstrip_def py_rstrip_def
      py_isspace_def)

lemma value_field_temp:
  "value_field \<lparr>returncode = 0, stdout = ''temp=45.0'' @ [CHR 0x27, CHR ''C'', CHR 0x0A]\<rparr>
     = Inr (''45.0'' @ [CHR 0x27, CHR ''C''])"
  by (simp add: value_field_def py_index_def py_strip_def py_lstrip_def py_rstrip_def
      py_isspace_def)

lemma value_field_garbage:
  "value_field \<lparr>returncode = 0, stdout = ''VCHI initialization failed'' @ [CHR 0x0A]\<rparr>
     = Inl IndexError"
  by (simp add: value_field_def py_index_def py_strip_def py_lstrip_def py_rstrip_def
      py_isspace_def)

theorem power_queries_sequenced_witness:
  "result_field (PowerMonitor_check floats_example
        \<lparr>get_throttled = Inr \<lparr>returncode = 1, stdout = []\<rparr>,
         measure_volts = Inr \<lparr>returncode = 0, stdout = ''volt=1.2000V'' @ [CHR 0x0A]\<rparr>,
         measure_temp = Inr \<lparr>returncode = 0,
           stdout = ''temp=45.0'' @ [CHR 0x27, CHR ''C'', CHR 0x0A]\<rparr>\<rparr>) ''core_voltage''
       = Some (VFloat (Finite (6 / 5)))
   \<and> result_field (PowerMonitor_check floats_example
        \<lparr>get_throttled = Inr \<lparr>returncode = 1, stdout = []\<rparr>,
         measure_volts = Inr \<lparr>returncode = 0, stdout = ''volt=1.2000V'' @ [CHR 0x0A]\<rparr>,
         measure_temp = Inr \<lparr>returncode = 0,
           stdout = ''temp=45.0'' @ [CHR 0x27, CHR ''C'', CHR 0x0A]\<rparr>\<rparr>) ''cpu_temp''
       = Some (VFloat (Finite 45))"
proof -
  let ?env = "\<lparr>get_throttled = Inr \<lparr>returncode = 1, stdout = []\<rparr>,
         measure_volts = Inr \<lparr>returncode = 0, stdout = ''volt=1.2000V'' @ [CHR 0x0A]\<rparr>,
         measure_temp = Inr \<lparr>returncode = 0,
           stdout = ''temp=45.0'' @ [CHR 0x27, CHR ''C'', CHR 0x0A]\<rparr>\<rparr>"
  let ?r1 = "\<lparr>returncode = 1, stdout = []\<rparr>"
  let ?r2 = "\<lparr>returncode = 0, stdout = ''volt=1.2000V'' @ [CHR 0x0A]\<rparr>"
  let ?r3 = "\<lparr>returncode = 0, stdout = ''temp=45.0'' @ [CHR 0x27, CHR ''C'', CHR 0x0A]\<rparr>"
  have t1: "get_throttled ?env = Inr ?r1" and t2: "returncode ?r1 \<noteq> 0"
    by simp_all
  have v1: "measure_volts ?env = Inr ?r2" and v2: "returncode ?r2 = 0"
    and v3: "value_field ?r2 = Inr ''1.2000V''"
    and v4: "floats_example (remove_char (CHR ''V'') ''1.2000V'') = Some (Finite (6 / 5))"
    using value_field_volt by (simp_all add: remove_char_def floats_example_def)
  have m1: "measure_temp ?env = Inr ?r3" and m2: "returncode ?r3 = 0"
    and m3: "value_field ?r3 = Inr (''45.0'' @ [CHR 0x27, CHR ''C''])"
    and m4: "floats_example (remove_degC (''45.0'' @ [CHR 0x27, CHR ''C''])) = Some (Finite 45)"
    using value_field_temp by (simp_all add: floats_example_def)
  note t = power_queries_sequenced [where env = ?env and pf = floats_example
      and ?r1.0 = ?r1 and ?r2.0 = ?r2 and ?s2.0 = "''1.2000V''" and ?x2.0 = "Finite (6 / 5)"
      and ?r3.0 = ?r3 and ?s3.0 = "''45.0'' @ [CHR 0x27, CHR ''C'']" and ?x3.0 = "Finite 45"]
  have a: "result_field (PowerMonitor_check floats_example ?env) ''core_voltage''
       = Some (VFloat (Finite (6 / 5)))"
    using t t1 t2 v1 v2 v3 v4 by blast
  have b: "result_field (PowerMonitor_check floats_example ?env) ''cpu_temp''
       = Some (VFloat (Finite 45))"
    using t t1 t2 v1 v2 v3 v4 m1 m2 m3 m4 by blast
  show ?thesis
    using a b by blast
qed

theorem power_queries_counterexample:
  "result_field (PowerMonitor_check floats_example
        \<lparr>get_throttled = Inr \<lparr>returncode = 0, stdout = ''VCHI initialization failed'' @ [CHR 0x0A]\<rparr>,
         measure_volts = Inr \<lparr>returncode = 0, stdout = ''volt=1.2000V'' @ [CHR 0x0A]\<rparr>,
         measure_temp = Inr \<lparr>returncode = 0,
           stdout = ''temp=45.0'' @ [CHR 0x27, CHR ''C'', CHR 0x0A]\<rparr>\<rparr>) ''core_voltage''
     = None
   \<and> result_field (PowerMonitor_check floats_example
        \<lparr>get_throttled = Inr \<lparr>returncode = 1, stdout = ''VCHI initialization failed'' @ [CHR 0x0A]\<rparr>,
         measure_volts = Inr \<lparr>returncode = 0, stdout = ''volt=1.2000V'' @ [CHR 0x0A]\<rparr>,
         measure_temp = Inr \<lparr>returncode = 0,
           stdout = ''temp=45.0'' @ [CHR 0x27, CHR ''C'', CHR 0x0A]\<rparr>\<rparr>) ''core_voltage''
     = Some (VFloat (Finite (6 / 5)))"
  using value_field_garbage value_field_volt value_field_temp
  by (simp add: PowerMonitor_check_def check_throttled_def check_voltage_def check_temp_def
      result_field_def remove_char_def floats_example_def TEMP_WARN_THRESHOLD_def)

section \<open>Properties of the scheduling-latency probe\<close>

text \<open>
  Claim C10. Whenever \<^verbatim>\<open>LatencyMonitor.check\<close> returns a record, the record has
  exactly the two fields \<^verbatim>\<open>max_latency_us\<close> and \<^verbatim>\<open>latency_high\<close>, the first an integer
  \<open>n\<close> and the second the truth value of \<open>n > 3000\<close>: the flag is present, with the
  value false, also when the latency is at or below the threshold.
\<close>

theorem latency_result_fields:
  assumes "LatencyMonitor_check run = Inr (Some d)"
  shows "\<exists>n. d ''max_latency_us'' = Some (VInt n)
           \<and> d ''latency_high'' = Some (VBool (LATENCY_WARN_US < n))
           \<and> LATENCY_WARN_US = 3000
           \<and> dom d = {''max_latency_us'', ''latency_high''}"
  using assms
  by (auto simp: LatencyMonitor_check_def LATENCY_WARN_US_def
      split: sum.splits if_splits option.splits)

lemma search_max_example:
  "search_max (''T: 0 Min: 7 Avg: 12 Max:    2890'' @ [CHR 0x0A]) = Some 2890"
  by (simp add: match_max_def py_isspace_def is_digit_def dec_value_def)

theorem latency_result_fields_witness:
  "LatencyMonitor_check
      (Inr \<lparr>returncode = 0, stdout = ''T: 0 Min: 7 Avg: 12 Max:    2890'' @ [CHR 0x0A]\<rparr>)
     = Inr (Some (Map.empty(''max_latency_us'' \<mapsto> VInt 2890, ''latency_high'' \<mapsto> VBool False)))
   \<and> (\<exists>n. (Map.empty(''max_latency_us'' \<mapsto> VInt 2890, ''latency_high'' \<mapsto> VBool False))
              ''max_latency_us'' = Some (VInt n)
         \<and> (Map.empty(''max_latency_us'' \<mapsto> VInt 2890, ''latency_high'' \<mapsto> VBool False))
              ''latency_high'' = Some (VBool (LATENCY_WARN_US < n)))"
proof -
  have c: "LatencyMonitor_check
      (Inr \<lparr>returncode = 0, stdout = ''T: 0 Min: 7 Avg: 12 Max:    2890'' @ [CHR 0x0A]\<rparr>)
     = Inr (Some (Map.empty(''max_latency_us'' \<mapsto> VInt 2890, ''latency_high'' \<mapsto> VBool False)))"
    using search_max_example by (simp add: LatencyMonitor_check_def LATENCY_WARN_US_def)
  show ?thesis
    using c latency_result_fields [OF c] by blast
qed

section \<open>Properties of the recorder\<close>

lemma log_never_raises: "fst (CSVLogger_log io data lg) = Inr ()"
  by (simp add: CSVLogger_log_def Let_def split: option.splits)

lemma log_main_failure:
  assumes "main_failure io = Some e"
  shows "fst (snd (CSVLogger_log io data lg)) = [logging_failed e]"
    and "backup_file (snd (snd (CSVLogger_log io data lg))) = backup_file lg"
  using assms
  by (auto simp: CSVLogger_log_def main_failure_def Let_def split: option.splits)

lemma log_main_row:
  assumes "main_writerow io = None"
  shows "main_file (snd (snd (CSVLogger_log io data lg)))
           = main_file lg @ [dict_to_list CSV_HEADERS (log_row (now io) data)]"
  using assms
  by (auto simp: CSVLogger_log_def Let_def split: option.splits)

lemma log_main_unwritten:
  assumes "main_writerow io = Some e"
  shows "snd (snd (CSVLogger_log io data lg)) = lg"
  using assms
  by (auto simp: CSVLogger_log_def Let_def split: option.splits)

lemma log_backup_row:
  assumes "main_failure io = None" and "backup_file lg = Some rows"
  shows "backup_file (snd (snd (CSVLogger_log io data lg)))
           = (if backup_writerow io = None
              then Some (rows @ [dict_to_list CSV_HEADERS (log_row (now io) data)])
              else Some rows)"
    and "fst (snd (CSVLogger_log io data lg))
           = (case backup_failure io of None \<Rightarrow> [] | Some e \<Rightarrow> [logging_failed e])"
  using assms
  by (auto simp: CSVLogger_log_def main_failure_def backup_failure_def Let_def
      split: option.splits)

lemma log_no_backup:
  assumes "main_failure io = None" and "backup_file lg = None"
  shows "fst (snd (CSVLogger_log io data lg)) = []"
  using assms
  by (auto simp: CSVLogger_log_def main_failure_def Let_def split: option.splits)

text \<open>
  Claim C3, as the code has it. \<^verbatim>\<open>CSVLogger.log\<close> never raises. The calls on the
  main file come first and all calls stand in one \<^verbatim>\<open>try\<close>: when one of the calls on
  the main file raises, \<^verbatim>\<open>Logging failed\<close> is printed with the message and the
  backup file is left as it was, no write to it being attempted; when the main file
  was written, flushed and synced, the row is written to the backup file if that write
  succeeds, and a failure on the backup file is printed and leaves the row in the main
  file.
\<close>

theorem log_failure_contained:
  "fst (CSVLogger_log io data lg) = Inr ()
   \<and> (\<forall>e. main_failure io = Some e \<longrightarrow>
         fst (snd (CSVLogger_log io data lg)) = [logging_failed e]
         \<and> backup_file (snd (snd (CSVLogger_log io data lg))) = backup_file lg)
   \<and> (\<forall>rows. main_failure io = None \<and> backup_file lg = Some rows \<longrightarrow>
         backup_file (snd (snd (CSVLogger_log io data lg)))
           = (if backup_writerow io = None
              then Some (rows @ [dict_to_list CSV_HEADERS (log_row (now io) data)])
              else Some rows)
         \<and> fst (snd (CSVLogger_log io data lg))
           = (case backup_failure io of None \<Rightarrow> [] | Some e \<Rightarrow> [logging_failed e]))
   \<and> (main_writerow io = None \<longrightarrow>
         main_file (snd (snd (CSVLogger_log io data lg)))
           = main_file lg @ [dict_to_list CSV_HEADERS (log_row (now io) data)])"
  using log_never_raises [of io data lg] log_main_failure [of io _ data lg]
    log_backup_row [of io lg _ data] log_main_row [of io data lg]
  by blast

theorem log_failure_contained_witness:
  "main_failure \<lparr>now = 0, main_writerow = None, main_flush = None, main_fsync = None,
       backup_writerow = Some (EnvError ''No space left on device''), backup_flush = None\<rparr> = None
   \<and> fst (snd (CSVLogger_log
       \<lparr>now = 0, main_writerow = None, main_flush = None, main_fsync = None,
        backup_writerow = Some (EnvError ''No space left on device''), backup_flush = None\<rparr>
       Map.empty \<lparr>main_file = [], backup_file = Some []\<rparr>))
     = [''Logging failed: No space left on device'']
   \<and> length (main_file (snd (snd (CSVLogger_log
       \<lparr>now = 0, main_writerow = None, main_flush = None, main_fsync = None,
        backup_writerow = Some (EnvError ''No space left on device''), backup_flush = None\<rparr>
       Map.empty \<lparr>main_file = [], backup_file = Some []\<rparr>)))) = 1"
  using log_failure_contained [of
       "\<lparr>now = 0, main_writerow = None, main_flush = None, main_fsync = None,
        backup_writerow = Some (EnvError ''No space left on device''), backup_flush = None\<rparr>"
       Map.empty "\<lparr>main_file = [], backup_file = Some []\<rparr>"]
  by (simp add: main_failure_def backup_failure_def logging_failed_def)

theorem log_mirror_skipped_counterexample:
  "backup_file (snd (snd (CSVLogger_log
       \<lparr>now = 0, main_writerow = Some (EnvError ''No space left on device''),
        main_flush = None, main_fsync = None, backup_writerow = None, backup_flush = None\<rparr>
       Map.empty \<lparr>main_file = [], backup_file = Some []\<rparr>))) = Some []"
  by (simp add: CSVLogger_log_def)

lemma dict_to_list_length: "length (dict_to_list fieldnames d) = length fieldnames"
  by (simp add: dict_to_list_def)

lemma dict_to_list_nth:
  "i < length fieldnames \<Longrightarrow>
     dict_to_list fieldnames d ! i
       = (case d (fieldnames ! i) of None \<Rightarrow> VStr [] | Some v \<Rightarrow> v)"
  by (simp add: dict_to_list_def)

lemma dict_to_list_cong:
  "(\<forall>k \<in> set fieldnames. d k = d' k) \<Longrightarrow> dict_to_list fieldnames d = dict_to_list fieldnames d'"
  by (simp add: dict_to_list_def)

lemma log_row_agree:
  "(\<forall>k \<in> set fieldnames. data k = data' k) \<Longrightarrow>
     dict_to_list fieldnames (log_row t data) = dict_to_list fieldnames (log_row t data')"
  by (rule dict_to_list_cong) (simp add: log_row_def map_add_def)

lemma log_depends_on_row:
  "dict_to_list CSV_HEADERS (log_row (now io) data) = dict_to_list CSV_HEADERS (log_row (now io) data')
     \<Longrightarrow> CSVLogger_log io data lg = CSVLogger_log io data' lg"
  by (simp add: CSVLogger_log_def)

lemma CSV_HEADERS_length: "length CSV_HEADERS = 23"
  by (simp add: CSV_HEADERS_def)

text \<open>
  Claim C8. The row that \<^verbatim>\<open>CSVLogger.log\<close> hands to the CSV writer has one cell for
  each of the 23 columns of \<^verbatim>\<open>CSV_HEADERS\<close>, in their order: the value of the record
  for that column, or the empty string when the record has none. Logging never raises,
  and two records that agree on the columns of the schema are logged alike, whatever
  other fields they carry.
\<close>

theorem row_follows_schema:
  "length (dict_to_list CSV_HEADERS (log_row (now io) data)) = length CSV_HEADERS
   \<and> length CSV_HEADERS = 23
   \<and> (\<forall>i < length CSV_HEADERS.
         dict_to_list CSV_HEADERS (log_row (now io) data) ! i
           = (case log_row (now io) data (CSV_HEADERS ! i) of None \<Rightarrow> VStr [] | Some v \<Rightarrow> v))
   \<and> fst (CSVLogger_log io data lg) = Inr ()
   \<and> (main_writerow io = None \<longrightarrow>
         main_file (snd (snd (CSVLogger_log io data lg)))
           = main_file lg @ [dict_to_list CSV_HEADERS (log_row (now io) data)])
   \<and> ((\<forall>k \<in> set CSV_HEADERS. data k = data' k) \<longrightarrow>
         CSVLogger_log io data lg = CSVLogger_log io data' lg)"
  using dict_to_list_length [of CSV_HEADERS] dict_to_list_nth [of _ CSV_HEADERS]
    CSV_HEADERS_length log_never_raises [of io data lg] log_main_row [of io data lg]
    log_depends_on_row [OF log_row_agree, of data data' io lg]
  by simp

theorem row_follows_schema_witness:
  "list_all (\<lambda>k. (Map.empty(''cpu_temp'' \<mapsto> VFloat (Finite 45), ''fan_rpm'' \<mapsto> VInt 4000)) k = (Map.empty(''cpu_temp'' \<mapsto> VFloat (Finite 45))) k) CSV_HEADERS
   \<and> main_file (snd (snd (CSVLogger_log
        \<lparr>now = 7, main_writerow = None, main_flush = None, main_fsync = None,
         backup_writerow = None, backup_flush = None\<rparr>
        (Map.empty(''cpu_temp'' \<mapsto> VFloat (Finite 45), ''fan_rpm'' \<mapsto> VInt 4000))
        \<lparr>main_file = [], backup_file = None\<rparr>)))
     = [[VTime 7, VStr [], VStr [], VStr [], VStr [], VStr [], VStr [], VStr [], VStr [],
         VFloat (Finite 45), VStr [], VStr [], VStr [], VStr [], VStr [], VStr [], VStr [],
         VStr [], VStr [], VStr [], VStr [], VStr [], VStr []]]
   \<and> CSVLogger_log
        \<lparr>now = 7, main_writerow = None, main_flush = None, main_fsync = None,
         backup_writerow = None, backup_flush = None\<rparr>
        (Map.empty(''cpu_temp'' \<mapsto> VFloat (Finite 45), ''fan_rpm'' \<mapsto> VInt 4000))
        \<lparr>main_file = [], backup_file = None\<rparr>
     = CSVLogger_log
        \<lparr>now = 7, main_writerow = None, main_flush = None, main_fsync = None,
         backup_writerow = None, backup_flush = None\<rparr>
        (Map.empty(''cpu_temp'' \<mapsto> VFloat (Finite 45)))
        \<lparr>main_file = [], backup_file = None\<rparr>"
proof -
  have a: "\<forall>k \<in> set CSV_HEADERS. (Map.empty(''cpu_temp'' \<mapsto> VFloat (Finite 45), ''fan_rpm'' \<mapsto> VInt 4000)) k = (Map.empty(''cpu_temp'' \<mapsto> VFloat (Finite 45))) k"
    by (simp add: CSV_HEADERS_def)
  have r: "dict_to_list CSV_HEADERS (log_row 7 (Map.empty(''cpu_temp'' \<mapsto> VFloat (Finite 45), ''fan_rpm'' \<mapsto> VInt 4000)))
     = [VTime 7, VStr [], VStr [], VStr [], VStr [], VStr [], VStr [], VStr [], VStr [],
         VFloat (Finite 45), VStr [], VStr [], VStr [], VStr [], VStr [], VStr [], VStr [],
         VStr [], VStr [], VStr [], VStr [], VStr [], VStr []]"
    by (simp add: dict_to_list_def CSV_HEADERS_def log_row_def)
  have w: "main_writerow \<lparr>now = 7, main_writerow = None, main_flush = None, main_fsync = None,
         backup_writerow = None, backup_flush = None\<rparr> = None"
    by simp
  note t = row_follows_schema [of
        "\<lparr>now = 7, main_writerow = None, main_flush = None, main_fsync = None,
         backup_writerow = None, backup_flush = None\<rparr>"
        "Map.empty(''cpu_temp'' \<mapsto> VFloat (Finite 45), ''fan_rpm'' \<mapsto> VInt 4000)"
        "\<lparr>main_file = [], backup_file = None\<rparr>"
        "Map.empty(''cpu_temp'' \<mapsto> VFloat (Finite 45))"]
  have m: "main_file (snd (snd (CSVLogger_log
        \<lparr>now = 7, main_writerow = None, main_flush = None, main_fsync = None,
         backup_writerow = None, backup_flush = None\<rparr>
        (Map.empty(''cpu_temp'' \<mapsto> VFloat (Finite 45), ''fan_rpm'' \<mapsto> VInt 4000))
        \<lparr>main_file = [], backup_file = None\<rparr>)))
     = main_file \<lparr>main_file = [], backup_file = None\<rparr> @
       [dict_to_list CSV_HEADERS (log_row
          (now \<lparr>now = 7, main_writerow = None, main_flush = None, main_fsync = None,
         backup_writerow = None, backup_flush = None\<rparr>)
          (Map.empty(''cpu_temp'' \<mapsto> VFloat (Finite 45), ''fan_rpm'' \<mapsto> VInt 4000)))]"
    using w t by blast
  have e: "CSVLogger_log
        \<lparr>now = 7, main_writerow = None, main_flush = None, main_fsync = None,
         backup_writerow = None, backup_flush = None\<rparr>
        (Map.empty(''cpu_temp'' \<mapsto> VFloat (Finite 45), ''fan_rpm'' \<mapsto> VInt 4000))
        \<lparr>main_file = [], backup_file = None\<rparr>
     = CSVLogger_log
        \<lparr>now = 7, main_writerow = None, main_flush = None, main_fsync = None,
         backup_writerow = None, backup_flush = None\<rparr>
        (Map.empty(''cpu_temp'' \<mapsto> VFloat (Finite 45)))
        \<lparr>main_file = [], backup_file = None\<rparr>"
    using a t by blast
  from m have "main_file (snd (snd (CSVLogger_log
        \<lparr>now = 7, main_writerow = None, main_flush = None, main_fsync = None,
         backup_writerow = None, backup_flush = None\<rparr>
        (Map.empty(''cpu_temp'' \<mapsto> VFloat (Finite 45), ''fan_rpm'' \<mapsto> VInt 4000))
        \<lparr>main_file = [], backup_file = None\<rparr>)))
     = [[VTime 7, VStr [], VStr [], VStr [], VStr [], VStr [], VStr [], VStr [], VStr [],
         VFloat (Finite 45), VStr [], VStr [], VStr [], VStr [], VStr [], VStr [], VStr [],
         VStr [], VStr [], VStr [], VStr [], VStr [], VStr []]]"
    using r by simp
  then show ?thesis
    using a e by (simp add: list_all_iff)
qed

section \<open>Failures of the probes and the loop around them\<close>

lemma usb_returns: "\<not> isl (fst (USBMonitor_check run st))"
  by (simp add: USBMonitor_check_def Let_def split: sum.splits)

lemma usb_error_note:
  "fst (USBMonitor_check (Inl e) st)
     = Inr (Some (Map.empty(''usb_events'' \<mapsto> VStr (''Error: '' @ str_exn e))))"
  by (simp add: USBMonitor_check_def)

lemma power_returns: "\<not> isl (PowerMonitor_check pf env)"
  by (simp add: PowerMonitor_check_dict)

lemma latency_returns: "\<not> isl (LatencyMonitor_check run)"
  by (simp add: LatencyMonitor_check_def split: sum.splits option.splits)

lemma log_returns: "\<not> isl (fst (LogMonitor_check env st))"
  by (simp add: LogMonitor_check_def Let_def split: sum.splits prod.splits)

lemma system_raises_iff:
  "(SystemMonitor_check env st = Inl e) =
     (if psutil st then
        cpu_percent env = Inl e
        \<or> (\<not> isl (cpu_percent env)
            \<and> (virtual_memory env = Inl e
                \<or> (\<not> isl (virtual_memory env) \<and> swap_memory env = Inl e)))
      else getloadavg env = Inl e)"
  by (auto simp: SystemMonitor_check_def Let_def split: sum.splits prod.splits)

lemma usb_keys:
  "k \<noteq> ''usb_events'' \<Longrightarrow> result_field (fst (USBMonitor_check run st)) k = None"
  by (simp add: USBMonitor_check_def result_field_def Let_def split: sum.splits)

lemma power_keys:
  assumes "k \<notin> set throttle_keys" and "k \<noteq> ''core_voltage''"
    and "k \<noteq> ''cpu_temp''" and "k \<noteq> ''temp_warning''"
  shows "result_field (PowerMonitor_check pf env) k = None"
proof -
  have t: "block_dict (check_temp pf env Map.empty) k = None"
    using assms by (intro check_temp_none) auto
  have o: "block_dict (check_throttled env Map.empty) k = None"
    using check_throttled_other [of k env Map.empty] assms by simp
  show ?thesis
    unfolding PowerMonitor_check_dict result_field_def
    using t o assms(2)
    by (simp add: check_temp_field [of pf env "block_dict (check_voltage pf env x)" for x]
        check_voltage_field [of pf env "block_dict (check_throttled env Map.empty)"])
qed

lemma system_keys:
  assumes "k \<notin> {''cpu_usage'', ''cpu_saturation'', ''ram_used_pct'', ''swap_used_mb'',
                  ''mem_pressure'', ''load_1min'', ''load_5min''}"
  shows "result_field (SystemMonitor_check env st) k = None"
  using assms
  by (auto simp: SystemMonitor_check_def result_field_def Let_def split: sum.splits prod.splits)

lemma latency_keys:
  "k \<noteq> ''max_latency_us'' \<Longrightarrow> k \<noteq> ''latency_high'' \<Longrightarrow>
     result_field (LatencyMonitor_check run) k = None"
  by (simp add: LatencyMonitor_check_def result_field_def split: sum.splits option.splits)

lemma log_keys:
  "k \<noteq> ''log_errors'' \<Longrightarrow> result_field (fst (LogMonitor_check env st)) k = None"
  by (simp add: LogMonitor_check_def result_field_def Let_def split: sum.splits prod.splits)

lemma merge_result_field:
  "fst (merge_result name r acc) k
     = (case result_field r k of Some v \<Rightarrow> Some v | None \<Rightarrow> fst acc k)"
  by (simp add: merge_result_def result_field_def map_add_def split: sum.splits option.splits)

lemma merge_result_printed:
  "snd (merge_result name r acc)
     = snd acc @ (case r of Inl e \<Rightarrow> [''Monitor '' @ name @ '' error: '' @ str_exn e]
                  | Inr x \<Rightarrow> [])"
  by (simp add: merge_result_def split: sum.splits option.splits)

lemma run_monitors_field:
  "fst (fst (run_monitors pf env ms)) k =
     (case result_field (fst (LogMonitor_check (log_files env) (klipper_log ms))) k of
        Some v \<Rightarrow> Some v
      | None \<Rightarrow>
     (case result_field (LatencyMonitor_check (latency_run env)) k of
        Some v \<Rightarrow> Some v
      | None \<Rightarrow>
     (case result_field (SystemMonitor_check (system_run env) (system ms)) k of
        Some v \<Rightarrow> Some v
      | None \<Rightarrow>
     (case result_field (PowerMonitor_check pf (power_run env)) k of
        Some v \<Rightarrow> Some v
      | None \<Rightarrow> result_field (fst (USBMonitor_check (usb_run env) (usb ms))) k))))"
  by (simp add: run_monitors_def Let_def merge_result_field split: prod.splits option.splits)

lemma not_isl_case: "\<not> isl r \<Longrightarrow> (case r of Inl e \<Rightarrow> f e | Inr x \<Rightarrow> []) = []"
  by (cases r) simp_all

lemma run_monitors_printed:
  "snd (fst (run_monitors pf env ms)) =
     (case SystemMonitor_check (system_run env) (system ms) of
        Inl e \<Rightarrow> [''Monitor System error: '' @ str_exn e]
      | Inr x \<Rightarrow> [])"
proof -
  obtain r1 u' where u: "USBMonitor_check (usb_run env) (usb ms) = (r1, u')"
    by (cases "USBMonitor_check (usb_run env) (usb ms)")
  obtain r5 l' where l: "LogMonitor_check (log_files env) (klipper_log ms) = (r5, l')"
    by (cases "LogMonitor_check (log_files env) (klipper_log ms)")
  have 1: "\<not> isl r1" using usb_returns [of "usb_run env" "usb ms"] u by simp
  have 5: "\<not> isl r5" using log_returns [of "log_files env" "klipper_log ms"] l by simp
  show ?thesis
    by (simp add: run_monitors_def Let_def u l merge_result_printed
        not_isl_case [OF 1] not_isl_case [OF 5] not_isl_case [OF power_returns]
        not_isl_case [OF latency_returns] split: sum.splits)
qed

lemma run_monitors_latency:
  "fst (fst (run_monitors pf env ms)) ''max_latency_us''
     = result_field (LatencyMonitor_check (latency_run env)) ''max_latency_us''"
  by (simp add: run_monitors_field log_keys system_keys power_keys usb_keys throttle_keys_def
      split: option.splits)

lemma run_monitors_log_errors:
  "fst (fst (run_monitors pf env ms)) ''log_errors''
     = result_field (fst (LogMonitor_check (log_files env) (klipper_log ms))) ''log_errors''"
  by (simp add: run_monitors_field latency_keys system_keys power_keys usb_keys throttle_keys_def
      split: option.splits)

lemma run_monitors_no_timestamp:
  "fst (fst (run_monitors pf env ms)) ''timestamp'' = None"
  by (simp add: run_monitors_field log_keys latency_keys system_keys power_keys usb_keys
      throttle_keys_def)

text \<open>
  Claim C2, as the code has it. The \<^verbatim>\<open>check\<close> of the bus-error, power/thermal,
  scheduling-latency and firmware-log probes never raises, whatever their calls do; the
  bus-error probe turns an exception into an error note. The resource-usage probe has no
  handler of its own: its \<^verbatim>\<open>check\<close> raises exactly what one of its calls raises, in
  the \<^verbatim>\<open>psutil\<close> mode and in the load-average mode. The loop around the probes
  catches that exception, prints it under the probe's name, and still runs and merges
  the probes that follow.
\<close>

theorem probe_failures_contained:
  "\<not> isl (fst (USBMonitor_check run1 u))
   \<and> fst (USBMonitor_check (Inl e1) u)
       = Inr (Some (Map.empty(''usb_events'' \<mapsto> VStr (''Error: '' @ str_exn e1))))
   \<and> \<not> isl (PowerMonitor_check pf penv)
   \<and> \<not> isl (LatencyMonitor_check run4)
   \<and> \<not> isl (fst (LogMonitor_check lenv l))
   \<and> (SystemMonitor_check senv s = Inl e) =
       (if psutil s then
          cpu_percent senv = Inl e
          \<or> (\<not> isl (cpu_percent senv)
              \<and> (virtual_memory senv = Inl e
                  \<or> (\<not> isl (virtual_memory senv) \<and> swap_memory senv = Inl e)))
        else getloadavg senv = Inl e)
   \<and> snd (fst (run_monitors pf env ms)) =
       (case SystemMonitor_check (system_run env) (system ms) of
          Inl e \<Rightarrow> [''Monitor System error: '' @ str_exn e]
        | Inr x \<Rightarrow> [])
   \<and> fst (fst (run_monitors pf env ms)) ''max_latency_us''
       = result_field (LatencyMonitor_check (latency_run env)) ''max_latency_us''
   \<and> fst (fst (run_monitors pf env ms)) ''log_errors''
       = result_field (fst (LogMonitor_check (log_files env) (klipper_log ms))) ''log_errors''"
  using usb_returns [of run1 u] usb_error_note [of e1 u] power_returns [of pf penv]
    latency_returns [of run4] log_returns [of lenv l] system_raises_iff [of senv s e]
    run_monitors_printed [of pf env ms] run_monitors_latency [of pf env ms]
    run_monitors_log_errors [of pf env ms]
  by blast

theorem probe_failures_contained_witness:
  "SystemMonitor_check (system_run bare_host) (system fresh_monitors)
     = Inl (EnvError ''Unexpected error in getloadavg()'')
   \<and> snd (fst (run_monitors Map.empty bare_host fresh_monitors))
     = [''Monitor System error: Unexpected error in getloadavg()'']"
proof -
  have s: "SystemMonitor_check (system_run bare_host) (system fresh_monitors)
     = Inl (EnvError ''Unexpected error in getloadavg()'')"
    using probe_failures_contained [where senv = "system_run bare_host"
        and s = "system fresh_monitors" and e = "EnvError ''Unexpected error in getloadavg()''"]
    by (simp add: bare_host_def fresh_monitors_def)
  have "snd (fst (run_monitors Map.empty bare_host fresh_monitors)) =
       (case SystemMonitor_check (system_run bare_host) (system fresh_monitors) of
          Inl e \<Rightarrow> [''Monitor System error: '' @ str_exn e]
        | Inr x \<Rightarrow> [])"
    using probe_failures_contained [where pf = Map.empty and env = bare_host
        and ms = fresh_monitors]
    by blast
  then show ?thesis
    using s by simp
qed

theorem system_probe_raises_counterexample:
  "SystemMonitor_check
      \<lparr>cpu_percent = Inl (EnvError ''psutil is missing''),
       virtual_memory = Inl (EnvError ''psutil is missing''),
       swap_memory = Inl (EnvError ''psutil is missing''),
       getloadavg = Inl (EnvError ''Unexpected error in getloadavg()'')\<rparr>
      \<lparr>psutil = False\<rparr>
     = Inl (EnvError ''Unexpected error in getloadavg()'')
   \<and> SystemMonitor_check
      \<lparr>cpu_percent = Inr (Finite 12),
       virtual_memory = Inl (EnvError ''[Errno 24] Too many open files''),
       swap_memory = Inr 0,
       getloadavg = Inr (Finite 1, Finite 1, Finite 1)\<rparr>
      \<lparr>psutil = True\<rparr>
     = Inl (EnvError ''[Errno 24] Too many open files'')"
  by (simp add: SystemMonitor_check_def)

section \<open>The row of a cycle\<close>

lemma cycle_log:
  "snd (snd (cycle pf env (ms, lg)))
     = snd (snd (CSVLogger_log (logger_io env)
         ((fst (fst (run_monitors pf env ms)))(''check_duration_ms'' \<mapsto> check_duration_ms env))
         lg))"
  by (simp add: cycle_def Let_def split: prod.splits)

lemma cycle_row_cells:
  "dict_to_list CSV_HEADERS (log_row t
       ((fst (fst (run_monitors pf env ms)))(''check_duration_ms'' \<mapsto> d))) ! 0 = VTime t"
  "dict_to_list CSV_HEADERS (log_row t
       ((fst (fst (run_monitors pf env ms)))(''check_duration_ms'' \<mapsto> d))) ! 1 = d"
  using run_monitors_no_timestamp [of pf env ms]
  by (simp_all add: dict_to_list_def CSV_HEADERS_def log_row_def map_add_def)

lemma cycle_written_row:
  assumes "main_writerow (logger_io env) = None"
  shows "butlast (main_file (snd (snd (cycle pf env (ms, lg))))) = main_file lg"
    and "last (main_file (snd (snd (cycle pf env (ms, lg))))) ! 0 = VTime (now (logger_io env))"
    and "last (main_file (snd (snd (cycle pf env (ms, lg))))) ! 1 = check_duration_ms env"
  using assms cycle_row_cells [of _ pf env ms]
  by (simp_all add: cycle_log log_main_row)

lemma cycle_unwritten:
  assumes "main_writerow (logger_io env) = Some e"
  shows "snd (snd (cycle pf env (ms, lg))) = lg"
  using assms by (simp add: cycle_log log_main_unwritten)

text \<open>
  Claim C5, as the code has it. The row a cycle writes is the old content of the main
  file plus one row, and the row's first two cells, the columns \<^verbatim>\<open>timestamp\<close> and
  \<^verbatim>\<open>check_duration_ms\<close>, are always filled: the first with the time that
  \<^verbatim>\<open>CSVLogger.log\<close> reads from the clock when it is called, after the probes have run
  and the duration has been taken, the second with the rounded time from the start of the
  cycle to the end of the probes. The start time of the cycle enters the row through the
  duration only. When the write raises, no row is added.
\<close>

theorem row_timestamp_is_log_time:
  "CSV_HEADERS ! 0 = ''timestamp'' \<and> CSV_HEADERS ! 1 = ''check_duration_ms''
   \<and> (main_writerow (logger_io env) = None \<longrightarrow>
         butlast (main_file (snd (snd (cycle pf env (ms, lg))))) = main_file lg
         \<and> last (main_file (snd (snd (cycle pf env (ms, lg))))) ! 0 = VTime (now (logger_io env))
         \<and> last (main_file (snd (snd (cycle pf env (ms, lg))))) ! 1
             = VFloat (round2 (Finite ((end_time env - start_time env) * 1000))))
   \<and> (main_writerow (logger_io env) \<noteq> None \<longrightarrow> snd (snd (cycle pf env (ms, lg))) = lg)"
  using cycle_written_row [of env pf ms lg] cycle_unwritten [of env _ pf ms lg]
  by (auto simp: CSV_HEADERS_def check_duration_ms_def)

lemma bare_host_writes: "main_writerow (logger_io bare_host) = None"
  by (simp add: bare_host_def)

theorem row_timestamp_is_log_time_witness:
  "main_writerow (logger_io bare_host) = None
   \<and> last (main_file (snd (snd (cycle Map.empty bare_host
        (fresh_monitors, \<lparr>main_file = [], backup_file = None\<rparr>))))) ! 0
       = VTime (100251 / 1000)
   \<and> last (main_file (snd (snd (cycle Map.empty bare_host
        (fresh_monitors, \<lparr>main_file = [], backup_file = None\<rparr>))))) ! 1
       = VFloat (Finite 250)"
proof -
  have d: "round2 (Finite ((end_time bare_host - start_time bare_host) * 1000)) = Finite 250"
    by (simp add: bare_host_def round_half_even_def)
  have n: "now (logger_io bare_host) = 100251 / 1000"
    by (simp add: bare_host_def)
  show ?thesis
    using bare_host_writes d n
      row_timestamp_is_log_time [of bare_host Map.empty fresh_monitors
        "\<lparr>main_file = [], backup_file = None\<rparr>"]
    by simp
qed

theorem row_timestamp_counterexample:
  "last (main_file (snd (snd (cycle Map.empty bare_host
        (fresh_monitors, \<lparr>main_file = [], backup_file = None\<rparr>))))) ! 0
       = VTime (100251 / 1000)
   \<and> last (main_file (snd (snd (cycle Map.empty bare_host
        (fresh_monitors, \<lparr>main_file = [], backup_file = None\<rparr>))))) ! 0
       \<noteq> VTime (start_time bare_host)"
  using cycle_written_row(2) [OF bare_host_writes, of Map.empty fresh_monitors
        "\<lparr>main_file = [], backup_file = None\<rparr>"]
  by (simp add: bare_host_def)

section \<open>Properties of the firmware-log-tail probe\<close>

lemma log_absent: "\<not> path_exists env \<Longrightarrow> LogMonitor_check env st = (Inr None, st)"
  by (simp add: LogMonitor_check_def)

lemma log_snapshot_absent: "LogMonitor_check (log_snapshot None) st = (Inr None, st)"
  by (simp add: LogMonitor_check_def log_snapshot_def)

lemma log_rotation:
  assumes "path_exists env" and "getsize env = Inr current_size" and "current_size < file_pos st"
  shows "LogMonitor_check env st = LogMonitor_check env (st\<lparr>file_pos := 0\<rparr>)"
  using assms by (simp add: LogMonitor_check_def Let_def)

lemma log_rotation_no_read:
  assumes "path_exists env" and "getsize env = Inr current_size" and "current_size < file_pos st"
    and "current_size = 0 \<or> isl (read_from env 0)"
  shows "LogMonitor_check env st = (Inr None, st\<lparr>file_pos := 0\<rparr>)"
  using assms by (auto simp: LogMonitor_check_def Let_def isl_def)

lemma log_advance:
  assumes "path_exists env" and "getsize env = Inr current_size" and "file_pos st < current_size"
    and "read_from env (file_pos st) = Inr (new_lines, told)"
  shows "snd (LogMonitor_check env st) = st\<lparr>file_pos := told\<rparr>"
  using assms by (simp add: LogMonitor_check_def Let_def)

lemma readlines_Nil: "readlines [] = []"
  by (simp add: readlines_def)

lemma log_snapshot_check:
  "LogMonitor_check (log_snapshot (Some content)) st =
     (Inr (if scan_lines (readlines (bytes_scanned content st)) \<noteq> []
           then Some (Map.empty(''log_errors'' \<mapsto>
                  VStr (py_join ''; '' (scan_lines (readlines (bytes_scanned content st))))))
           else None),
      st\<lparr>file_pos := length content\<rparr>)"
proof -
  consider (shrunk) "length content < file_pos st" | (same) "length content = file_pos st"
    | (grown) "file_pos st < length content"
    by linarith
  then show ?thesis
  proof cases
    case shrunk
    then show ?thesis
      by (cases "content = []")
        (simp_all add: LogMonitor_check_def log_snapshot_def bytes_scanned_def Let_def
          readlines_Nil scan_lines_def)
  next
    case same
    then show ?thesis
      by (simp add: LogMonitor_check_def log_snapshot_def bytes_scanned_def Let_def
          readlines_Nil scan_lines_def)
  next
    case grown
    then show ?thesis
      by (simp add: LogMonitor_check_def log_snapshot_def bytes_scanned_def Let_def)
  qed
qed

lemma log_run_Cons:
  "fst (log_run (c # rest) st)
     = bytes_scanned c st # fst (log_run rest (snd (LogMonitor_check (log_snapshot (Some c)) st)))"
  "snd (log_run (c # rest) st)
     = snd (log_run rest (snd (LogMonitor_check (log_snapshot (Some c)) st)))"
  by (simp_all add: Let_def split: prod.splits)

lemma log_run_appends:
  assumes "sorted_wrt prefix cs" and "cs \<noteq> []" and "file_pos st \<le> length (hd cs)"
  shows "concat (fst (log_run cs st)) = drop (file_pos st) (last cs)
       \<and> file_pos (snd (log_run cs st)) = length (last cs)"
  using assms
proof (induction cs arbitrary: st)
  case Nil
  then show ?case by simp
next
  case (Cons c rest)
  let ?st' = "snd (LogMonitor_check (log_snapshot (Some c)) st)"
  have p: "file_pos ?st' = length c"
    by (simp add: log_snapshot_check)
  have b: "bytes_scanned c st = drop (file_pos st) c"
    using Cons.prems(3) by (simp add: bytes_scanned_def)
  show ?case
  proof (cases "rest = []")
    case True
    then show ?thesis
      using p b by (simp add: log_run_Cons del: log_run.simps(2))
  next
    case False
    then have h: "hd rest \<in> set rest" and l: "last rest \<in> set rest"
      by simp_all
    have pr: "prefix c (last rest)" and ph: "prefix c (hd rest)"
      using Cons.prems(1) h l by simp_all
    have "file_pos ?st' \<le> length (hd rest)"
      using p ph by (simp add: prefix_length_le)
    then have ih: "concat (fst (log_run rest ?st')) = drop (length c) (last rest)
        \<and> file_pos (snd (log_run rest ?st')) = length (last rest)"
      using Cons.IH [of ?st'] Cons.prems(1) False p by simp
    obtain z where z: "last rest = c @ z"
      using pr by (auto simp: prefix_def)
    show ?thesis
      using ih b z False Cons.prems(3)
      by (simp add: log_run_Cons del: log_run.simps(2))
  qed
qed

lemma bytes_scanned_shrunk: "length content < file_pos st \<Longrightarrow> bytes_scanned content st = content"
  by (simp add: bytes_scanned_def)

lemma bytes_scanned_grown:
  "file_pos st \<le> length content \<Longrightarrow> bytes_scanned content st = drop (file_pos st) content"
  by (simp add: bytes_scanned_def)

text \<open>
  Claim C7. When the log file exists and its size is below the retained offset,
  \<^verbatim>\<open>LogMonitor.check\<close> behaves as it does with the offset at zero: the offset is reset,
  and stays zero when the file is empty or the read raises; otherwise the read that
  follows in the same check starts at the first byte, so that for a file of known content
  the whole content is scanned and the offset ends at its length. When the file is
  absent, the check yields nothing and leaves the offset as it was.
\<close>

theorem log_rotation_resets_offset:
  "(path_exists env \<and> getsize env = Inr current_size \<and> current_size < file_pos st \<longrightarrow>
      LogMonitor_check env st = LogMonitor_check env (st\<lparr>file_pos := 0\<rparr>)
      \<and> (current_size = 0 \<or> isl (read_from env 0) \<longrightarrow>
           LogMonitor_check env st = (Inr None, st\<lparr>file_pos := 0\<rparr>)))
   \<and> (length content < file_pos st \<longrightarrow>
        bytes_scanned content st = content
        \<and> LogMonitor_check (log_snapshot (Some content)) st =
            (Inr (if scan_lines (readlines content) \<noteq> []
                  then Some (Map.empty(''log_errors'' \<mapsto>
                         VStr (py_join ''; '' (scan_lines (readlines content)))))
                  else None),
             st\<lparr>file_pos := length content\<rparr>))
   \<and> (\<not> path_exists env \<longrightarrow> LogMonitor_check env st = (Inr None, st))
   \<and> LogMonitor_check (log_snapshot None) st = (Inr None, st)"
  using log_rotation [of env current_size st] log_rotation_no_read [of env current_size st]
    bytes_scanned_shrunk [of content st] log_snapshot_check [of content st]
    log_absent [of env st] log_snapshot_absent [of st]
  by auto

lemma scan_timer_line:
  "scan_lines (readlines ''Timer too close\<newline>'') = [''timer_close: Timer too close'']"
  by (simp add: scan_lines_def readlines_def line_errors_def log_patterns_def
      match_mcu_shutdown_def py_strip_def py_lstrip_def py_rstrip_def py_isspace_def)

theorem log_rotation_resets_offset_witness:
  "length ''Timer too close\<newline>'' < file_pos \<lparr>file_pos = 50\<rparr>
   \<and> LogMonitor_check (log_snapshot (Some ''Timer too close\<newline>'')) \<lparr>file_pos = 50\<rparr>
     = (Inr (Some (Map.empty(''log_errors'' \<mapsto> VStr ''timer_close: Timer too close''))),
        \<lparr>file_pos = 16\<rparr>)"
proof -
  have l: "length ''Timer too close\<newline>'' < file_pos \<lparr>file_pos = 50\<rparr>"
    by simp
  then have "LogMonitor_check (log_snapshot (Some ''Timer too close\<newline>''))
        \<lparr>file_pos = 50\<rparr> =
            (Inr (if scan_lines (readlines ''Timer too close\<newline>'') \<noteq> []
                  then Some (Map.empty(''log_errors'' \<mapsto>
                         VStr (py_join ''; ''
                           (scan_lines (readlines ''Timer too close\<newline>'')))))
                  else None),
             \<lparr>file_pos = 50\<rparr>\<lparr>file_pos := length ''Timer too close\<newline>''\<rparr>)"
    using log_rotation_resets_offset [of _ _ "\<lparr>file_pos = 50\<rparr>"
        "''Timer too close\<newline>''"]
    by blast
  then show ?thesis
    using l by (simp add: scan_timer_line)
qed

text \<open>
  Claim C9. When the log file exists, is larger than the retained offset, and the read
  from the offset returns, the offset becomes the position told after the read, whatever
  the lines contain. For a file of known content that is at least as long as the offset,
  the check scans the bytes from the offset to the end and sets the offset to the length.
  Over successive checks of a file that only grows, each state a prefix of the next, the
  bytes scanned by the checks, put together, are the bytes of the last state from the
  first offset on: every appended byte is scanned once.
\<close>

theorem log_offset_advances:
  "(path_exists env \<and> getsize env = Inr current_size \<and> file_pos st < current_size
      \<and> read_from env (file_pos st) = Inr (new_lines, told) \<longrightarrow>
      snd (LogMonitor_check env st) = st\<lparr>file_pos := told\<rparr>)
   \<and> (file_pos st \<le> length content \<longrightarrow>
        LogMonitor_check (log_snapshot (Some content)) st =
            (Inr (if scan_lines (readlines (drop (file_pos st) content)) \<noteq> []
                  then Some (Map.empty(''log_errors'' \<mapsto>
                         VStr (py_join ''; ''
                           (scan_lines (readlines (drop (file_pos st) content))))))
                  else None),
             st\<lparr>file_pos := length content\<rparr>))
   \<and> (sorted_wrt prefix cs \<and> cs \<noteq> [] \<and> file_pos st \<le> length (hd cs) \<longrightarrow>
        concat (fst (log_run cs st)) = drop (file_pos st) (last cs)
        \<and> file_pos (snd (log_run cs st)) = length (last cs))"
  using log_advance [of env current_size st new_lines told]
    bytes_scanned_grown [of st content] log_snapshot_check [of content st]
    log_run_appends [of cs st]
  by auto

lemma scan_quiet_line:
  "scan_lines (readlines ''Stats 14.2: ok\<newline>'') = []"
  by (simp add: scan_lines_def readlines_def line_errors_def log_patterns_def
      match_mcu_shutdown_def)

theorem log_offset_advances_witness:
  "LogMonitor_check (log_snapshot (Some ''Stats 14.2: ok\<newline>'')) \<lparr>file_pos = 0\<rparr>
     = (Inr None, \<lparr>file_pos = 15\<rparr>)
   \<and> sorted_wrt prefix [''ab'', ''abcd'', ''abcd'', ''abcdef'']
   \<and> concat (fst (log_run [''ab'', ''abcd'', ''abcd'', ''abcdef''] \<lparr>file_pos = 1\<rparr>)) = ''bcdef''
   \<and> file_pos (snd (log_run [''ab'', ''abcd'', ''abcd'', ''abcdef''] \<lparr>file_pos = 1\<rparr>)) = 6"
proof -
  note t = log_offset_advances [where st = "\<lparr>file_pos = 0\<rparr>"
      and content = "''Stats 14.2: ok\<newline>''"]
  have a: "LogMonitor_check (log_snapshot (Some ''Stats 14.2: ok\<newline>''))
        \<lparr>file_pos = 0\<rparr> = (Inr None, \<lparr>file_pos = 15\<rparr>)"
    using t by (simp add: scan_quiet_line)
  have s: "sorted_wrt prefix [''ab'', ''abcd'', ''abcd'', ''abcdef'']"
    by simp
  have n: "[''ab'', ''abcd'', ''abcd'', ''abcdef''] \<noteq> []"
    by simp
  have h: "file_pos \<lparr>file_pos = 1\<rparr> \<le> length (hd [''ab'', ''abcd'', ''abcd'', ''abcdef''])"
    by simp
  have "concat (fst (log_run [''ab'', ''abcd'', ''abcd'', ''abcdef''] \<lparr>file_pos = 1\<rparr>))
        = drop (file_pos \<lparr>file_pos = 1\<rparr>) (last [''ab'', ''abcd'', ''abcd'', ''abcdef''])
      \<and> file_pos (snd (log_run [''ab'', ''abcd'', ''abcd'', ''abcdef''] \<lparr>file_pos = 1\<rparr>))
        = length (last [''ab'', ''abcd'', ''abcd'', ''abcdef''])"
    using s n h log_offset_advances [where st = "\<lparr>file_pos = 1\<rparr>"
      and cs = "[''ab'', ''abcd'', ''abcd'', ''abcdef'']"]
    by blast
  then have "concat (fst (log_run [''ab'', ''abcd'', ''abcd'', ''abcdef''] \<lparr>file_pos = 1\<rparr>))
        = ''bcdef''
      \<and> file_pos (snd (log_run [''ab'', ''abcd'', ''abcd'', ''abcdef''] \<lparr>file_pos = 1\<rparr>)) = 6"
    by simp
  then show ?thesis
    using a s by blast
qed

section \<open>Properties of the bus-error probe\<close>

lemma deque_refill_short: "length xs \<le> 20 \<Longrightarrow> deque_refill xs = xs"
  by (simp add: deque_refill_def)

lemma usb_check_returned:
  "USBMonitor_check (Inr result) st =
     (Inr (if usb_new_events (last_seen_lines st) (usb_current_lines result) \<noteq> []
           then Some (Map.empty(''usb_events'' \<mapsto>
                  VStr (py_join ''; ''
                    (usb_new_events (last_seen_lines st) (usb_current_lines result)))))
           else None),
      st\<lparr>last_seen_lines := deque_refill (usb_current_lines result)\<rparr>)"
  by (simp add: USBMonitor_check_def Let_def)

lemma filter_eq_count: "filter (\<lambda>l. l = x) xs = replicate (count_list xs x) x"
  by (induction xs) simp_all

lemma usb_new_events_one:
  assumes "set B = insert new (set A)" and "new \<notin> set A" and "count_list B new = 1"
    and "list_all (\<lambda>l. py_strip l = l) B" and "new \<noteq> []" and "usb_pattern_found new"
  shows "usb_new_events A B = [new]"
proof -
  have m: "map py_strip B = B"
    using assms(4) by (simp add: list_all_iff map_idI)
  have "filter (\<lambda>line. line \<noteq> [] \<and> line \<notin> set A \<and> usb_pattern_found line) B
          = filter (\<lambda>l. l = new) B"
    using assms(1,2,5,6) by (intro filter_cong) auto
  then show ?thesis
    using m assms(3) by (simp add: usb_new_events_def filter_eq_count)
qed

text \<open>
  Where the window holds what the previous check saw. Let the first of two consecutive
  checks see the lines \<open>A\<close>, at most 20, and the second the lines \<open>B\<close>, which are the
  lines of \<open>A\<close> and one more line \<open>new\<close> that occurs once and in which a watched pattern
  is found, no line of \<open>B\<close> carrying white space at its ends. Then the second check
  reports exactly \<open>new\<close>.
\<close>

lemma usb_reports_only_new_line:
  assumes "usb_current_lines res1 = A" and "usb_current_lines res2 = B"
    and "length A \<le> 20"
    and "set B = insert new (set A)" and "new \<notin> set A" and "count_list B new = 1"
    and "list_all (\<lambda>l. py_strip l = l) B"
    and "new \<noteq> []" and "usb_pattern_found new"
  shows "last_seen_lines (snd (USBMonitor_check (Inr res1) st)) = A
       \<and> fst (USBMonitor_check (Inr res2) (snd (USBMonitor_check (Inr res1) st)))
           = Inr (Some (Map.empty(''usb_events'' \<mapsto> VStr new)))
       \<and> last_seen_lines
            (snd (USBMonitor_check (Inr res2) (snd (USBMonitor_check (Inr res1) st))))
           = drop (length B - 20) B"
proof -
  have w: "last_seen_lines (snd (USBMonitor_check (Inr res1) st)) = A"
    using assms(1,3) by (simp add: usb_check_returned deque_refill_short)
  have e: "usb_new_events A B = [new]"
    using assms(4-9) by (rule usb_new_events_one)
  show ?thesis
    using w e assms(2)
    by (simp add: usb_check_returned [of res2] deque_refill_def)
qed

lemma strip_examples:
  "py_strip ''eth0: link up'' = ''eth0: link up''"
  "py_strip ''usb 1-1: new device'' = ''usb 1-1: new device''"
  "py_strip ''usb 1-1: USB disconnect'' = ''usb 1-1: USB disconnect''"
  "py_strip ''usb disconnect'' = ''usb disconnect''"
  "py_strip ''usb disconnect '' = ''usb disconnect''"
  "py_strip ''ttyACM0 disconnect'' = ''ttyACM0 disconnect''"
  by (simp_all add: py_strip_def py_lstrip_def py_rstrip_def py_isspace_def)

lemma pattern_examples:
  "usb_pattern_found ''usb 1-1: USB disconnect''"
  "usb_pattern_found ''usb disconnect''"
  "usb_pattern_found ''ttyACM0 disconnect''"
  "\<not> usb_pattern_found ''eth0: link up''"
  by (simp_all add: usb_pattern_found_def py_lower_def match_ttyacm_def is_digit_def)

lemma lines_before:
  "usb_current_lines \<lparr>returncode = 0,
       stdout = ''eth0: link up\<newline>usb 1-1: new device\<newline>''\<rparr>
     = [''eth0: link up'', ''usb 1-1: new device'']"
  by (simp add: usb_current_lines_def py_strip_def py_lstrip_def py_rstrip_def py_isspace_def)

lemma lines_after:
  "usb_current_lines \<lparr>returncode = 0,
       stdout = ''eth0: link up\<newline>usb 1-1: new device\<newline>usb 1-1: USB disconnect\<newline>''\<rparr>
     = [''eth0: link up'', ''usb 1-1: new device'', ''usb 1-1: USB disconnect'']"
  by (simp add: usb_current_lines_def py_strip_def py_lstrip_def py_rstrip_def py_isspace_def)

lemma usb_reports_only_new_line_example:
  "usb_current_lines \<lparr>returncode = 0,
       stdout = ''eth0: link up\<newline>usb 1-1: new device\<newline>''\<rparr>
     = [''eth0: link up'', ''usb 1-1: new device'']
   \<and> usb_pattern_found ''usb 1-1: USB disconnect''
   \<and> fst (USBMonitor_check
        (Inr \<lparr>returncode = 0,
          stdout = ''eth0: link up\<newline>usb 1-1: new device\<newline>usb 1-1: USB disconnect\<newline>''\<rparr>)
        (snd (USBMonitor_check
          (Inr \<lparr>returncode = 0, stdout = ''eth0: link up\<newline>usb 1-1: new device\<newline>''\<rparr>)
          \<lparr>last_seen_lines = []\<rparr>)))
     = Inr (Some (Map.empty(''usb_events'' \<mapsto> VStr ''usb 1-1: USB disconnect'')))"
proof -
  have 3: "length [''eth0: link up'', ''usb 1-1: new device''] \<le> 20"
    by simp
  have 4: "set [''eth0: link up'', ''usb 1-1: new device'', ''usb 1-1: USB disconnect'']
      = insert ''usb 1-1: USB disconnect'' (set [''eth0: link up'', ''usb 1-1: new device''])"
    by auto
  have 5: "''usb 1-1: USB disconnect'' \<notin> set [''eth0: link up'', ''usb 1-1: new device'']"
    by simp
  have 6: "count_list [''eth0: link up'', ''usb 1-1: new device'', ''usb 1-1: USB disconnect'']
      ''usb 1-1: USB disconnect'' = 1"
    by simp
  have 7: "list_all (\<lambda>l. py_strip l = l)
      [''eth0: link up'', ''usb 1-1: new device'', ''usb 1-1: USB disconnect'']"
    by (simp add: strip_examples)
  have 8: "''usb 1-1: USB disconnect'' \<noteq> []"
    by simp
  show ?thesis
    using usb_reports_only_new_line [OF lines_before lines_after 3 4 5 6 7 8
        pattern_examples(1), of "\<lparr>last_seen_lines = []\<rparr>"]
      lines_before pattern_examples(1)
    by blast
qed

lemma lines_21:
  "usb_current_lines kernel_log_21
     = [''usb disconnect'',
      ''a'', ''b'', ''c'', ''d'', ''e'', ''f'', ''g'', ''h'', ''i'', ''j'',
      ''k'', ''l'', ''m'', ''n'', ''o'', ''p'', ''q'', ''r'', ''s'', ''t'']"
  by (simp add: kernel_log_21_def usb_current_lines_def py_strip_def py_lstrip_def
      py_rstrip_def py_isspace_def)

lemma lines_22:
  "usb_current_lines kernel_log_22
     = [''usb disconnect'',
      ''a'', ''b'', ''c'', ''d'', ''e'', ''f'', ''g'', ''h'', ''i'', ''j'',
      ''k'', ''l'', ''m'', ''n'', ''o'', ''p'', ''q'', ''r'', ''s'', ''t'',
      ''ttyACM0 disconnect'']"
  by (simp add: kernel_log_22_def usb_current_lines_def py_strip_def py_lstrip_def
      py_rstrip_def py_isspace_def)

lemma strip_letter: "length l = 1 \<Longrightarrow> \<not> py_isspace (hd l) \<Longrightarrow> py_strip l = l"
  by (cases l) (simp_all add: py_strip_def py_lstrip_def py_rstrip_def)

lemma window_21:
  "last_seen_lines (snd (USBMonitor_check (Inr kernel_log_21) \<lparr>last_seen_lines = []\<rparr>))
     = [''a'', ''b'', ''c'', ''d'', ''e'', ''f'', ''g'', ''h'', ''i'', ''j'',
      ''k'', ''l'', ''m'', ''n'', ''o'', ''p'', ''q'', ''r'', ''s'', ''t'']"
  by (simp add: usb_check_returned lines_21 deque_refill_def)

lemma events_21_again:
  "usb_new_events
     [''a'', ''b'', ''c'', ''d'', ''e'', ''f'', ''g'', ''h'', ''i'', ''j'',
      ''k'', ''l'', ''m'', ''n'', ''o'', ''p'', ''q'', ''r'', ''s'', ''t'']
     [''usb disconnect'',
      ''a'', ''b'', ''c'', ''d'', ''e'', ''f'', ''g'', ''h'', ''i'', ''j'',
      ''k'', ''l'', ''m'', ''n'', ''o'', ''p'', ''q'', ''r'', ''s'', ''t'']
     = [''usb disconnect'']"
  by (simp add: usb_new_events_def strip_examples pattern_examples strip_letter py_isspace_def)

lemma events_22:
  "usb_new_events
     [''a'', ''b'', ''c'', ''d'', ''e'', ''f'', ''g'', ''h'', ''i'', ''j'',
      ''k'', ''l'', ''m'', ''n'', ''o'', ''p'', ''q'', ''r'', ''s'', ''t'']
     [''usb disconnect'',
      ''a'', ''b'', ''c'', ''d'', ''e'', ''f'', ''g'', ''h'', ''i'', ''j'',
      ''k'', ''l'', ''m'', ''n'', ''o'', ''p'', ''q'', ''r'', ''s'', ''t'',
      ''ttyACM0 disconnect'']
     = [''usb disconnect'', ''ttyACM0 disconnect'']"
  by (simp add: usb_new_events_def strip_examples pattern_examples strip_letter py_isspace_def)

lemma lines_padded:
  "usb_current_lines kernel_log_padded = [''usb disconnect '', ''eth0: link up'']"
  "usb_current_lines kernel_log_padded_next
     = [''usb disconnect '', ''eth0: link up'', ''ttyACM0 disconnect'']"
  by (simp_all add: kernel_log_padded_def kernel_log_padded_next_def usb_current_lines_def
      py_strip_def py_lstrip_def py_rstrip_def py_isspace_def)

lemma events_padded:
  "usb_new_events [''usb disconnect '', ''eth0: link up'']
     [''usb disconnect '', ''eth0: link up'', ''ttyACM0 disconnect'']
     = [''usb disconnect'', ''ttyACM0 disconnect'']"
  by (simp add: usb_new_events_def strip_examples pattern_examples)

text \<open>
  Claim C6 does not hold of the code. The claim: when the second of two consecutive
  cycles sees every line of the first and one new line matching a watched pattern, the
  check reports exactly the new line, and after every cycle the retained window is the
  full line set of the cycle. The code: the comment of \<^verbatim>\<open>USBMonitor.check\<close> and the
  \<^verbatim>\<open>deque(maxlen=20)\<close> expect the last 20 lines of the kernel log, but the command is
  passed as a list together with \<^verbatim>\<open>shell=True\<close>, so that only \<^verbatim>\<open>dmesg\<close> runs and the
  whole log arrives. With a log of 21 lines whose first line is an old event: the
  second cycle reports the old event next to the new line; the window after the first
  cycle is not the line set of that cycle; and a cycle that sees the unchanged 21 lines
  again reports the old event again. The code also compares the stripped line with the
  raw lines of the window, so that an old event whose line ends in a space is reported
  again next to the new line.
\<close>

theorem usb_old_event_reported_again:
  "fst (USBMonitor_check (Inr kernel_log_22)
        (snd (USBMonitor_check (Inr kernel_log_21) \<lparr>last_seen_lines = []\<rparr>)))
     = Inr (Some (Map.empty(''usb_events'' \<mapsto> VStr ''usb disconnect; ttyACM0 disconnect'')))
   \<and> last_seen_lines (snd (USBMonitor_check (Inr kernel_log_21) \<lparr>last_seen_lines = []\<rparr>))
     \<noteq> usb_current_lines kernel_log_21
   \<and> fst (USBMonitor_check (Inr kernel_log_21)
        (snd (USBMonitor_check (Inr kernel_log_21) \<lparr>last_seen_lines = []\<rparr>)))
     = Inr (Some (Map.empty(''usb_events'' \<mapsto> VStr ''usb disconnect'')))
   \<and> fst (USBMonitor_check (Inr kernel_log_padded_next)
        (snd (USBMonitor_check (Inr kernel_log_padded) \<lparr>last_seen_lines = []\<rparr>)))
     = Inr (Some (Map.empty(''usb_events'' \<mapsto> VStr ''usb disconnect; ttyACM0 disconnect'')))"
proof -
  have a: "fst (USBMonitor_check (Inr kernel_log_22)
        (snd (USBMonitor_check (Inr kernel_log_21) \<lparr>last_seen_lines = []\<rparr>)))
     = Inr (Some (Map.empty(''usb_events'' \<mapsto> VStr ''usb disconnect; ttyACM0 disconnect'')))"
    by (simp add: usb_check_returned [of kernel_log_22] window_21 lines_22 events_22)
  have b: "last_seen_lines (snd (USBMonitor_check (Inr kernel_log_21) \<lparr>last_seen_lines = []\<rparr>))
     \<noteq> usb_current_lines kernel_log_21"
    by (simp add: window_21 lines_21)
  have c: "fst (USBMonitor_check (Inr kernel_log_21)
        (snd (USBMonitor_check (Inr kernel_log_21) \<lparr>last_seen_lines = []\<rparr>)))
     = Inr (Some (Map.empty(''usb_events'' \<mapsto> VStr ''usb disconnect'')))"
    by (simp add: usb_check_returned [of kernel_log_21 "snd x" for x] window_21 lines_21
        events_21_again)
  have d: "fst (USBMonitor_check (Inr kernel_log_padded_next)
        (snd (USBMonitor_check (Inr kernel_log_padded) \<lparr>last_seen_lines = []\<rparr>)))
     = Inr (Some (Map.empty(''usb_events'' \<mapsto> VStr ''usb disconnect; ttyACM0 disconnect'')))"
    by (simp add: usb_check_returned lines_padded deque_refill_def events_padded)
  show ?thesis
    using a b c d by blast
qed

end
